theory Spec2Isabelle
  imports Main "HOL-Library.Product_Lexorder"
begin

unbundle bit_operations_syntax

section \<open>Python strings\<close>

text \<open>
  A Python \<open>str\<close> is a sequence of Unicode code points. It is modelled as a list of
  natural numbers, one per code point; \<open>py\<close> turns an ASCII literal into such a list.
\<close>

type_synonym pystr = "nat list"

definition py :: "string \<Rightarrow> pystr" where
  "py s = map of_char s"

text \<open>
  \<open>str.strip(chars)\<close> removes, at both ends, every character that belongs to \<open>chars\<close>.
\<close>

definition py_strip_chars :: "pystr \<Rightarrow> pystr \<Rightarrow> pystr" where
  "py_strip_chars cs s =
     rev (dropWhile (\<lambda>c. c \<in> set cs) (rev (dropWhile (\<lambda>c. c \<in> set cs) s)))"

text \<open>
  \<open>str.strip()\<close> without argument removes whitespace: the code points for which
  \<open>str.isspace\<close> holds.
\<close>

definition py_isspace :: "nat \<Rightarrow> bool" where
  "py_isspace c \<longleftrightarrow>
     (9 \<le> c \<and> c \<le> 13) \<or> (28 \<le> c \<and> c \<le> 32) \<or> c = 133 \<or> c = 160 \<or> c = 5760 \<or>
     (8192 \<le> c \<and> c \<le> 8202) \<or> c = 8232 \<or> c = 8233 \<or> c = 8239 \<or> c = 8287 \<or> c = 12288"

definition py_strip :: "pystr \<Rightarrow> pystr" where
  "py_strip s = rev (dropWhile py_isspace (rev (dropWhile py_isspace s)))"

section \<open>Elixir parser: argument splitting\<close>

text \<open>
  The loop of \<open>ElixirTreeSitterParser._parse_arguments\<close> over the characters of the
  stripped text. The state is the list of arguments found so far, the nesting depth
  (a Python integer, which may become negative) and the characters of the current
  argument. The equation for the empty text is the code after the loop.
\<close>

definition is_open :: "nat \<Rightarrow> bool" where
  "is_open ch \<longleftrightarrow> ch \<in> set (py ''({['')"

definition is_close :: "nat \<Rightarrow> bool" where
  "is_close ch \<longleftrightarrow> ch \<in> set (py '')}]'')"

definition comma :: nat where
  "comma = 44"

definition push_arg :: "pystr list \<Rightarrow> pystr \<Rightarrow> pystr list" where
  "push_arg args current = (let arg = py_strip current in if arg \<noteq> [] then args @ [arg] else args)"

fun split_loop :: "pystr \<Rightarrow> pystr list \<Rightarrow> int \<Rightarrow> pystr \<Rightarrow> pystr list" where
  "split_loop [] args depth current = push_arg args current"
| "split_loop (ch # rest) args depth current =
     (if is_open ch then split_loop rest args (depth + 1) (current @ [ch])
      else if is_close ch then split_loop rest args (depth - 1) (current @ [ch])
      else if ch = comma \<and> depth = 0 then split_loop rest (push_arg args current) depth []
      else split_loop rest args depth (current @ [ch]))"

definition parse_arguments :: "pystr \<Rightarrow> pystr list" where
  "parse_arguments args_text =
     (let t = py_strip_chars (py ''()'') args_text
      in if py_strip t = [] then [] else split_loop t [] 0 [])"

section \<open>String helpers of the precise-reference indexer\<close>

definition py_startswith :: "pystr \<Rightarrow> pystr \<Rightarrow> bool" where
  "py_startswith s p \<longleftrightarrow> take (length p) s = p"

definition py_endswith :: "pystr \<Rightarrow> pystr \<Rightarrow> bool" where
  "py_endswith s p \<longleftrightarrow> length p \<le> length s \<and> drop (length s - length p) s = p"

text \<open>\<open>sub in s\<close>: \<open>sub\<close> occurs in \<open>s\<close> as a contiguous substring.\<close>

fun py_contains :: "pystr \<Rightarrow> pystr \<Rightarrow> bool" where
  "py_contains sub [] \<longleftrightarrow> sub = []"
| "py_contains sub (c # cs) \<longleftrightarrow> py_startswith (c # cs) sub \<or> py_contains sub cs"

text \<open>\<open>s.replace(a, b)\<close> for single characters \<open>a\<close> and \<open>b\<close>.\<close>

definition py_replace_char :: "nat \<Rightarrow> nat \<Rightarrow> pystr \<Rightarrow> pystr" where
  "py_replace_char a b s = map (\<lambda>c. if c = a then b else c) s"

text \<open>\<open>s.replace('()', '')\<close>: the occurrences are removed from left to right.\<close>

fun remove_call_parens :: "pystr \<Rightarrow> pystr" where
  "remove_call_parens (a # b # rest) =
     (if a = 40 \<and> b = 41 then remove_call_parens rest else a # remove_call_parens (b # rest))"
| "remove_call_parens s = s"

text \<open>\<open>s.split(sep)\<close> for a single character \<open>sep\<close>; the result is never empty.\<close>

fun py_split :: "nat \<Rightarrow> pystr \<Rightarrow> pystr list" where
  "py_split sep [] = [[]]"
| "py_split sep (c # cs) =
     (if c = sep then [] # py_split sep cs
      else (case py_split sep cs of [] \<Rightarrow> [[c]] | p # ps \<Rightarrow> (c # p) # ps))"

text \<open>\<open>os.path.basename\<close> and \<open>os.path.join\<close> of two components, on POSIX paths.\<close>

definition basename :: "pystr \<Rightarrow> pystr" where
  "basename p = last (py_split 47 p)"

definition path_join :: "pystr \<Rightarrow> pystr \<Rightarrow> pystr" where
  "path_join a b =
     (if py_startswith b (py ''/'') then b
      else if a = [] \<or> py_endswith a (py ''/'') then a @ b
      else a @ py ''/'' @ b)"

section \<open>The graph store\<close>

text \<open>
  The graph store is a property graph: nodes carry a set of labels and properties, and
  relationships are typed, directed and carry properties. The queries of the indexer
  read and write the node properties \<open>path\<close>, \<open>name\<close>, \<open>line_number\<close>,
  \<open>scip_symbol\<close> and \<open>relative_path\<close> and the relationship property
  \<open>scip_verified\<close>; a property that is not set is \<open>None\<close>. The store is taken to
  execute every query: connection and query failures are outside the model.
\<close>

record node =
  nid :: nat
  labels :: "pystr list"
  n_path :: "pystr option"
  n_name :: "pystr option"
  n_line_number :: "int option"
  n_scip_symbol :: "pystr option"
  n_relative_path :: "pystr option"

record edge =
  e_src :: nat
  e_rel :: pystr
  e_dst :: nat
  e_scip_verified :: "bool option"

record graph =
  nodes :: "node list"
  edges :: "edge list"

definition has_label :: "pystr \<Rightarrow> node \<Rightarrow> bool" where
  "has_label l n \<longleftrightarrow> l \<in> set (labels n)"

definition fresh_id :: "graph \<Rightarrow> nat" where
  "fresh_id g = fold (\<lambda>n m. max (Suc (nid n)) m) (nodes g) 0"

definition new_node :: "nat \<Rightarrow> pystr \<Rightarrow> node" where
  "new_node i l = \<lparr>nid = i, labels = [l], n_path = None, n_name = None, n_line_number = None,
     n_scip_symbol = None, n_relative_path = None\<rparr>"

text \<open>\<open>MATCH (n ...)\<close>: the nodes that satisfy the pattern.\<close>

definition match_nodes :: "(node \<Rightarrow> bool) \<Rightarrow> graph \<Rightarrow> node list" where
  "match_nodes P g = filter P (nodes g)"

text \<open>
  \<open>MERGE (n ...)\<close>: when no node satisfies the pattern, one is created from the
  pattern, with a fresh identity.
\<close>

definition merge_node :: "(node \<Rightarrow> bool) \<Rightarrow> (nat \<Rightarrow> node) \<Rightarrow> graph \<Rightarrow> graph" where
  "merge_node P mk g =
     (if list_ex P (nodes g) then g else g\<lparr>nodes := nodes g @ [mk (fresh_id g)]\<rparr>)"

text \<open>\<open>SET n.p = v\<close> on every node bound by the pattern.\<close>

definition set_nodes :: "(node \<Rightarrow> bool) \<Rightarrow> (node \<Rightarrow> node) \<Rightarrow> graph \<Rightarrow> graph" where
  "set_nodes P f g = g\<lparr>nodes := map (\<lambda>n. if P n then f n else n) (nodes g)\<rparr>"

text \<open>
  \<open>MERGE (a)-[:rel]->(b)\<close> for one pair of bound nodes: a relationship of that type
  is created when there is none, and \<open>merge_edges\<close> does so for every row.
\<close>

definition edge_between :: "pystr \<Rightarrow> nat \<Rightarrow> nat \<Rightarrow> edge \<Rightarrow> bool" where
  "edge_between rel a b e \<longleftrightarrow> e_src e = a \<and> e_dst e = b \<and> e_rel e = rel"

definition merge_edge :: "pystr \<Rightarrow> nat \<times> nat \<Rightarrow> graph \<Rightarrow> graph" where
  "merge_edge rel ab g =
     (if list_ex (edge_between rel (fst ab) (snd ab)) (edges g) then g
      else g\<lparr>edges := edges g @
        [\<lparr>e_src = fst ab, e_rel = rel, e_dst = snd ab, e_scip_verified = None\<rparr>]\<rparr>)"

definition merge_edges :: "pystr \<Rightarrow> (nat \<times> nat) list \<Rightarrow> graph \<Rightarrow> graph" where
  "merge_edges rel rows g = fold (merge_edge rel) rows g"

definition rows_of :: "node list \<Rightarrow> node list \<Rightarrow> (nat \<times> nat) list" where
  "rows_of as bs = concat (map (\<lambda>a. map (\<lambda>b. (nid a, nid b)) bs) as)"

text \<open>\<open>SET r.scip_verified = true\<close> on every relationship bound by the rows.\<close>

definition bound_edge :: "pystr \<Rightarrow> (nat \<times> nat) list \<Rightarrow> edge \<Rightarrow> bool" where
  "bound_edge rel rows e \<longleftrightarrow> e_rel e = rel \<and> (e_src e, e_dst e) \<in> set rows"

definition verify_edges :: "pystr \<Rightarrow> (nat \<times> nat) list \<Rightarrow> graph \<Rightarrow> graph" where
  "verify_edges rel rows g =
     g\<lparr>edges := map (\<lambda>e. if bound_edge rel rows e then e\<lparr>e_scip_verified := Some True\<rparr> else e)
       (edges g)\<rparr>"

section \<open>The precise index and the environment of the indexer\<close>

text \<open>
  An occurrence of the precise index carries its \<open>range\<close> (a repeated integer
  field), its symbol and the bit mask \<open>symbol_roles\<close>. A document carries its
  relative path, its occurrences and its symbol table.
\<close>

record occurrence =
  o_range :: "int list"
  o_symbol :: pystr
  o_symbol_roles :: int

record symbol_information =
  si_symbol :: pystr
  si_kind :: int
  si_display_name :: pystr

record document =
  d_relative_path :: pystr
  d_occurrences :: "occurrence list"
  d_symbols :: "symbol_information list"

record index =
  i_documents :: "document list"
  i_external_symbols :: "symbol_information list"

text \<open>
  Modelled from the spec: the role bit \<open>SymbolRole.Definition\<close> is declared in the
  generated module \<open>scip_pb2\<close>, which is not among the sources; the role bit that
  separates definitions from references is the lowest bit.
\<close>

definition SymbolRole_Definition :: int where
  "SymbolRole_Definition = 1"

text \<open>
  A function record of the structural parser, as the indexer reads it: \<open>name\<close>,
  \<open>line_number\<close> and \<open>end_line\<close>.
\<close>

record func =
  f_name :: pystr
  f_line_number :: int
  f_end_line :: int

text \<open>
  What the file system and the structural parser of \<open>graph_builder\<close> (not among the
  sources) answer for one relative path: the resolved absolute path, the parts of the
  relative path as \<open>pathlib\<close> splits it, whether the file exists, and the function
  records of the structural parse (\<open>None\<close> when the parse raises).
\<close>

record file_env =
  fe_resolved :: pystr
  fe_parts :: "pystr list"
  fe_exists :: bool
  fe_functions :: "func list option"

record env =
  repo_path_str :: pystr
  file_of :: "pystr \<Rightarrow> file_env"

datatype py_error = IndexError

section \<open>Labels and names of symbols\<close>

definition KIND_TO_LABEL :: "(int \<times> pystr) list" where
  "KIND_TO_LABEL =
     [(0, py ''Symbol''), (7, py ''Class''), (26, py ''Function''), (17, py ''Function''),
      (61, py ''Variable''), (21, py ''Interface''), (9, py ''Function''),
      (49, py ''Struct''), (11, py ''Enum''), (43, py ''Module''), (38, py ''Module''),
      (31, py ''Module'')]"

definition infer_label_from_symbol :: "pystr \<Rightarrow> pystr" where
  "infer_label_from_symbol symbol =
     (if py_endswith symbol (py '').'') \<or> py_endswith symbol (py ''()'') then py ''Function''
      else if py_endswith symbol (py ''#'') then py ''Class''
      else if py_endswith symbol (py ''/'') then py ''Module''
      else if py_contains (py ''package'') symbol \<and> py_contains (py ''module'') symbol
        then py ''Module''
      else py ''Symbol'')"

definition extract_name :: "pystr \<Rightarrow> symbol_information option \<Rightarrow> pystr" where
  "extract_name symbol sym_info =
     (case (case sym_info of Some i \<Rightarrow> if si_display_name i \<noteq> [] then Some (si_display_name i)
                                          else None
            | None \<Rightarrow> None) of
        Some d \<Rightarrow> d
      | None \<Rightarrow>
          (let clean_symbol = remove_call_parens (py_replace_char 35 47 (py_replace_char 46 47 symbol));
               parts = filter (\<lambda>p. p \<noteq> []) (py_split 47 clean_symbol)
           in if parts \<noteq> [] then last parts else symbol))"

definition kind_of :: "symbol_information option \<Rightarrow> int" where
  "kind_of sym_info = (case sym_info of Some i \<Rightarrow> si_kind i | None \<Rightarrow> 0)"

text \<open>The label of a definition node: \<open>not label\<close> holds for \<open>None\<close> and for the empty string.\<close>

definition definition_label :: "pystr \<Rightarrow> symbol_information option \<Rightarrow> pystr" where
  "definition_label symbol sym_info =
     (let label = map_of KIND_TO_LABEL (kind_of sym_info);
          label = (if label = None \<or> label = Some [] \<or> label = Some (py ''Symbol'')
                   then (let inferred = infer_label_from_symbol symbol
                         in if inferred \<noteq> py ''Symbol'' then Some inferred else label)
                   else label)
      in case label of None \<Rightarrow> py ''Symbol'' | Some l \<Rightarrow> if l = [] then py ''Symbol'' else l)"

definition target_label :: "pystr \<Rightarrow> symbol_information option \<Rightarrow> pystr" where
  "target_label symbol sym_info =
     (let label = (case map_of KIND_TO_LABEL (kind_of sym_info) of None \<Rightarrow> py ''Symbol''
                   | Some l \<Rightarrow> l)
      in if label = py ''Symbol''
         then (let inferred = infer_label_from_symbol symbol
               in if inferred \<noteq> py ''Symbol'' then inferred else label)
         else label)"

definition is_local :: "pystr \<Rightarrow> bool" where
  "is_local symbol \<longleftrightarrow> py_startswith symbol (py ''local'')"

section \<open>The queries of the indexer\<close>

definition labelled_at :: "pystr \<Rightarrow> pystr \<Rightarrow> node \<Rightarrow> bool" where
  "labelled_at l path n \<longleftrightarrow> has_label l n \<and> n_path n = Some path"

definition symbol_node :: "pystr \<Rightarrow> pystr \<Rightarrow> node \<Rightarrow> bool" where
  "symbol_node l symbol n \<longleftrightarrow> has_label l n \<and> n_scip_symbol n = Some symbol"

text \<open>\<open>MERGE (f:File {path: $path}) SET f.relative_path = $rel_path, f.name = $name\<close>\<close>

definition upsert_file :: "pystr \<Rightarrow> pystr \<Rightarrow> pystr \<Rightarrow> graph \<Rightarrow> graph" where
  "upsert_file path rel_path name g =
     set_nodes (labelled_at (py ''File'') path)
       (\<lambda>n. n\<lparr>n_relative_path := Some rel_path, n_name := Some name\<rparr>)
       (merge_node (labelled_at (py ''File'') path)
          (\<lambda>i. (new_node i (py ''File''))\<lparr>n_path := Some path\<rparr>) g)"

text \<open>
  \<open>MATCH (p:parent_label {path: $parent_path}) MERGE (d:Directory {path: $current_path})
  SET d.name = $part MERGE (p)-[:CONTAINS]->(d)\<close>: without a parent the query has no row
  and writes nothing.
\<close>

definition link_directory :: "pystr \<Rightarrow> pystr \<Rightarrow> pystr \<Rightarrow> pystr \<Rightarrow> graph \<Rightarrow> graph" where
  "link_directory parent_label parent_path current_path part g =
     (let ps = match_nodes (labelled_at parent_label parent_path) g
      in if ps = [] then g
         else
           (let g1 = merge_node (labelled_at (py ''Directory'') current_path)
                       (\<lambda>i. (new_node i (py ''Directory''))\<lparr>n_path := Some current_path\<rparr>) g;
                g2 = set_nodes (labelled_at (py ''Directory'') current_path)
                       (\<lambda>n. n\<lparr>n_name := Some part\<rparr>) g1
            in merge_edges (py ''CONTAINS'')
                 (rows_of ps (match_nodes (labelled_at (py ''Directory'') current_path) g2)) g2))"

text \<open>
  \<open>MATCH (p:parent_label {path: $parent_path}) MATCH (f:File {path: $file_path})
  MERGE (p)-[:CONTAINS]->(f)\<close>
\<close>

definition link_file :: "pystr \<Rightarrow> pystr \<Rightarrow> pystr \<Rightarrow> graph \<Rightarrow> graph" where
  "link_file parent_label parent_path file_path g =
     merge_edges (py ''CONTAINS'')
       (rows_of (match_nodes (labelled_at parent_label parent_path) g)
          (match_nodes (labelled_at (py ''File'') file_path) g)) g"

text \<open>
  The first hierarchy block: the loop over the directory parts, with the loop variables
  \<open>parent_label\<close> and \<open>parent_path\<close>, then the link to the file.
\<close>

fun link_dirs1 :: "pystr \<Rightarrow> pystr \<Rightarrow> pystr list \<Rightarrow> graph \<Rightarrow> (pystr \<times> pystr) \<times> graph" where
  "link_dirs1 parent_label parent_path [] g = ((parent_label, parent_path), g)"
| "link_dirs1 parent_label parent_path (part # parts) g =
     (let current_abs_path = path_join parent_path part
      in link_dirs1 (py ''Directory'') current_abs_path parts
           (link_directory parent_label parent_path current_abs_path part g))"

definition link_hierarchy1 :: "pystr \<Rightarrow> pystr list \<Rightarrow> pystr \<Rightarrow> graph \<Rightarrow> graph" where
  "link_hierarchy1 repo relative_parts file_path g =
     (case link_dirs1 (py ''Repository'') repo (butlast relative_parts) g of
        ((parent_label, parent_path), g') \<Rightarrow> link_file parent_label parent_path file_path g')"

text \<open>
  The second hierarchy block keeps \<open>current_abs_path\<close> as a loop variable of its own.
\<close>

fun link_dirs2 ::
  "pystr \<Rightarrow> pystr \<Rightarrow> pystr \<Rightarrow> pystr list \<Rightarrow> graph \<Rightarrow> (pystr \<times> pystr) \<times> graph" where
  "link_dirs2 parent_label parent_path current_abs_path [] g = ((parent_label, parent_path), g)"
| "link_dirs2 parent_label parent_path current_abs_path (part # parts) g =
     (let current = path_join current_abs_path part
      in link_dirs2 (py ''Directory'') current current parts
           (link_directory parent_label parent_path current part g))"

definition link_hierarchy2 :: "pystr \<Rightarrow> pystr list \<Rightarrow> pystr \<Rightarrow> graph \<Rightarrow> graph" where
  "link_hierarchy2 repo path_parts file_path g =
     (case link_dirs2 (py ''Repository'') repo repo (butlast path_parts) g of
        ((parent_label, parent_path), g') \<Rightarrow> link_file parent_label parent_path file_path g')"

text \<open>
  \<open>MATCH (f:File {path: $path}) MERGE (n:label {scip_symbol: $symbol})
  SET n.name = $name, n.path = $path, n.line_number = $line_number
  MERGE (f)-[:CONTAINS]->(n)\<close>
\<close>

definition upsert_definition ::
  "pystr \<Rightarrow> pystr \<Rightarrow> pystr \<Rightarrow> pystr \<Rightarrow> int \<Rightarrow> graph \<Rightarrow> graph" where
  "upsert_definition path label symbol name line_number g =
     (let fs = match_nodes (labelled_at (py ''File'') path) g
      in if fs = [] then g
         else
           (let g1 = merge_node (symbol_node label symbol)
                       (\<lambda>i. (new_node i label)\<lparr>n_scip_symbol := Some symbol\<rparr>) g;
                g2 = set_nodes (symbol_node label symbol)
                       (\<lambda>n. n\<lparr>n_name := Some name, n_path := Some path,
                              n_line_number := Some line_number\<rparr>) g1
            in merge_edges (py ''CONTAINS'')
                 (rows_of fs (match_nodes (symbol_node label symbol) g2)) g2))"

text \<open>
  The two queries that create a call relationship differ in the pattern of the caller
  only. \<open>MATCH (caller {...}) WHERE caller:Function OR caller:Method
  MERGE (target:target_label {scip_symbol: $target_symbol}) ON CREATE SET target.name =
  $target_name MERGE (caller)-[r:CALLS]->(target) SET r.scip_verified = true
  RETURN count(r) as created\<close>: the result is the graph and the number of rows.
\<close>

definition is_caller :: "pystr \<Rightarrow> (node \<Rightarrow> bool) \<Rightarrow> node \<Rightarrow> bool" where
  "is_caller path key n \<longleftrightarrow>
     n_path n = Some path \<and> key n \<and> (has_label (py ''Function'') n \<or> has_label (py ''Method'') n)"

definition upsert_call ::
  "(node \<Rightarrow> bool) \<Rightarrow> pystr \<Rightarrow> pystr \<Rightarrow> pystr \<Rightarrow> graph \<Rightarrow> graph \<times> nat" where
  "upsert_call caller_pattern tlabel target_symbol target_name g =
     (let callers = match_nodes caller_pattern g
      in if callers = [] then (g, 0)
         else
           (let g1 = merge_node (symbol_node tlabel target_symbol)
                       (\<lambda>i. (new_node i tlabel)\<lparr>n_scip_symbol := Some target_symbol,
                                                 n_name := Some target_name\<rparr>) g;
                rows = rows_of callers (match_nodes (symbol_node tlabel target_symbol) g1);
                g2 = verify_edges (py ''CALLS'') rows (merge_edges (py ''CALLS'') rows g1)
            in (g2, sum_list (map (\<lambda>ab. length (filter (edge_between (py ''CALLS'')
                                     (fst ab) (snd ab)) (edges g2))) rows))))"

section \<open>Processing one document\<close>

definition is_definition :: "occurrence \<Rightarrow> bool" where
  "is_definition occ \<longleftrightarrow> o_symbol_roles occ AND SymbolRole_Definition \<noteq> 0"

text \<open>
  The body of the loop over the sorted definitions. The sort has read \<open>range[0]\<close> and
  \<open>range[1]\<close> of every definition before the loop starts.
\<close>

definition process_definition ::
  "(pystr \<rightharpoonup> symbol_information) \<Rightarrow> pystr \<Rightarrow> occurrence \<Rightarrow> graph \<Rightarrow> graph" where
  "process_definition symbol_map file_path_str occ g =
     (if is_local (o_symbol occ) then g
      else
        (let sym_info = symbol_map (o_symbol occ);
             label = definition_label (o_symbol occ) sym_info;
             name = extract_name (o_symbol occ) sym_info;
             line_number = o_range occ ! 0 + 1
         in upsert_definition file_path_str label (o_symbol occ) name line_number g))"

text \<open>
  The caller of a reference at line \<open>ref_line\<close>: the functions whose span contains the
  line, sorted by the length of their span with Python's stable sort, and the first of
  them. \<open>None\<close> when no span contains the line.
\<close>

definition contains_line :: "int \<Rightarrow> func \<Rightarrow> bool" where
  "contains_line ref_line f \<longleftrightarrow> f_line_number f \<le> ref_line \<and> ref_line \<le> f_end_line f"

definition span :: "func \<Rightarrow> int" where
  "span f = f_end_line f - f_line_number f"

definition resolve_caller :: "func list \<Rightarrow> int \<Rightarrow> func option" where
  "resolve_caller functions ref_line =
     (let containing_funcs = filter (contains_line ref_line) functions
      in if containing_funcs = [] then None
         else Some (hd (sort_key span containing_funcs)))"

text \<open>
  The two queries of one attributed reference: the caller is looked up by path and
  name, and by path and line number when the first query returns the count \<open>0\<close>.
\<close>

definition link_call ::
  "pystr \<Rightarrow> func \<Rightarrow> pystr \<Rightarrow> pystr \<Rightarrow> pystr \<Rightarrow> graph \<Rightarrow> graph" where
  "link_call file_path_str caller tlabel target_symbol target_name g =
     (case upsert_call (is_caller file_path_str (\<lambda>n. n_name n = Some (f_name caller)))
             tlabel target_symbol target_name g of
        (g1, created) \<Rightarrow>
          if created = 0
          then fst (upsert_call
                 (is_caller file_path_str (\<lambda>n. n_line_number n = Some (f_line_number caller)))
                 tlabel target_symbol target_name g1)
          else g1)"

text \<open>The body of the loop over the references, for a reference whose line is known.\<close>

definition link_reference ::
  "(pystr \<rightharpoonup> symbol_information) \<Rightarrow> pystr \<Rightarrow> func list \<Rightarrow> occurrence \<Rightarrow> int \<Rightarrow> graph \<Rightarrow> graph"
  where
  "link_reference symbol_map file_path_str functions ref ref_line g =
     (if is_local (o_symbol ref) then g
      else
        (case resolve_caller functions ref_line of
           None \<Rightarrow> g
         | Some caller \<Rightarrow>
             (let target_symbol = o_symbol ref;
                  target_info = symbol_map target_symbol
              in link_call file_path_str caller (target_label target_symbol target_info)
                   target_symbol (extract_name target_symbol target_info) g)))"

text \<open>
  The loop over the references runs inside a \<open>try\<close> whose handler logs and returns: a
  reference with an empty \<open>range\<close> raises \<open>IndexError\<close> at \<open>ref.range[0]\<close>, and the
  references after it are not processed.
\<close>

fun link_references ::
  "(pystr \<rightharpoonup> symbol_information) \<Rightarrow> pystr \<Rightarrow> func list \<Rightarrow> occurrence list \<Rightarrow> graph \<Rightarrow> graph"
  where
  "link_references symbol_map file_path_str functions [] g = g"
| "link_references symbol_map file_path_str functions (ref # refs) g =
     (case o_range ref of
        [] \<Rightarrow> g
      | start # _ \<Rightarrow>
          link_references symbol_map file_path_str functions refs
            (link_reference symbol_map file_path_str functions ref (start + 1) g))"

text \<open>
  The third step of \<open>_process_document\<close>, with its early returns: the file does not
  exist, the structural parse raises or finds no function, or there is no reference.
\<close>

definition link_document_references ::
  "(pystr \<rightharpoonup> symbol_information) \<Rightarrow> file_env \<Rightarrow> occurrence list \<Rightarrow> graph \<Rightarrow> graph" where
  "link_document_references symbol_map fe references g =
     (if \<not> fe_exists fe then g
      else
        (case fe_functions fe of
           None \<Rightarrow> g
         | Some functions \<Rightarrow>
             if functions = [] then g
             else if references = [] then g
             else link_references symbol_map (fe_resolved fe) functions references g))"

text \<open>
  \<open>_process_document\<close>. The result is the graph and the exception that leaves the
  function, if any: the sort of the definitions reads \<open>range[0]\<close> and \<open>range[1]\<close>
  outside every \<open>try\<close>, after the file node and the hierarchy have been written.
\<close>

definition process_document ::
  "env \<Rightarrow> (pystr \<rightharpoonup> symbol_information) \<Rightarrow> document \<Rightarrow> graph \<Rightarrow> py_error option \<times> graph"
  where
  "process_document ev symbol_map doc g =
     (if py_startswith (d_relative_path doc) (py ''..'') then (None, g)
      else
        (let fe = file_of ev (d_relative_path doc);
             file_path_str = fe_resolved fe;
             g1 = upsert_file file_path_str (d_relative_path doc) (basename file_path_str) g;
             g2 = link_hierarchy1 (repo_path_str ev) (fe_parts fe) file_path_str g1;
             g3 = link_hierarchy2 (repo_path_str ev) (fe_parts fe) file_path_str g2;
             definitions = filter is_definition (d_occurrences doc);
             references = filter (\<lambda>occ. \<not> is_definition occ) (d_occurrences doc)
         in if list_ex (\<lambda>occ. length (o_range occ) < 2) definitions then (Some IndexError, g3)
            else
              (let g4 = fold (process_definition symbol_map file_path_str)
                          (sort_key (\<lambda>x. (o_range x ! 0, o_range x ! 1)) definitions) g3
               in (None, link_document_references symbol_map fe references g4))))"

section \<open>Ingesting an index\<close>

text \<open>
  The symbol table: the external symbols first, then the symbols of every document; a
  later entry replaces an earlier one with the same symbol.
\<close>

definition add_symbols ::
  "symbol_information list \<Rightarrow> (pystr \<rightharpoonup> symbol_information) \<Rightarrow> (pystr \<rightharpoonup> symbol_information)"
  where
  "add_symbols syms m = fold (\<lambda>s m. m(si_symbol s \<mapsto> s)) syms m"

definition build_symbol_map :: "index \<Rightarrow> (pystr \<rightharpoonup> symbol_information)" where
  "build_symbol_map idx =
     fold (\<lambda>doc m. add_symbols (d_symbols doc) m) (i_documents idx)
       (add_symbols (i_external_symbols idx) Map.empty)"

text \<open>The loop over the documents stops at the first exception.\<close>

fun process_documents ::
  "env \<Rightarrow> (pystr \<rightharpoonup> symbol_information) \<Rightarrow> document list \<Rightarrow> graph \<Rightarrow> py_error option \<times> graph"
  where
  "process_documents ev symbol_map [] g = (None, g)"
| "process_documents ev symbol_map (doc # docs) g =
     (case process_document ev symbol_map doc g of
        (Some e, g') \<Rightarrow> (Some e, g')
      | (None, g') \<Rightarrow> process_documents ev symbol_map docs g')"

text \<open>
  \<open>MATCH (n) WHERE n.scip_symbol STARTS WITH 'local' DETACH DELETE n\<close>: the nodes are
  deleted together with their relationships.
\<close>

definition is_local_node :: "node \<Rightarrow> bool" where
  "is_local_node n \<longleftrightarrow> (case n_scip_symbol n of None \<Rightarrow> False | Some s \<Rightarrow> is_local s)"

definition cleanup_local :: "graph \<Rightarrow> graph" where
  "cleanup_local g =
     (let dead = map nid (filter is_local_node (nodes g))
      in \<lparr>nodes = filter (\<lambda>n. \<not> is_local_node n) (nodes g),
          edges = filter (\<lambda>e. e_src e \<notin> set dead \<and> e_dst e \<notin> set dead) (edges g)\<rparr>)"

text \<open>
  \<open>ingest_index\<close>: an exception of a document is logged and raised again, and the
  cleanup query is not run.
\<close>

definition ingest_index :: "env \<Rightarrow> index \<Rightarrow> graph \<Rightarrow> py_error option \<times> graph" where
  "ingest_index ev idx g =
     (case process_documents ev (build_symbol_map idx) (i_documents idx) g of
        (Some e, g') \<Rightarrow> (Some e, g')
      | (None, g') \<Rightarrow> (None, cleanup_local g'))"

section \<open>Example data\<close>

text \<open>
  Two nested functions of one file, spanning the lines 1 to 20 and 5 to 10, a reference
  to a global symbol, an environment with one file, and a graph that holds the file node
  and the node of the inner function.
\<close>

definition ex_outer :: func where
  "ex_outer = \<lparr>f_name = py ''outer'', f_line_number = 1, f_end_line = 20\<rparr>"

definition ex_inner :: func where
  "ex_inner = \<lparr>f_name = py ''inner'', f_line_number = 5, f_end_line = 10\<rparr>"

definition ex_ref :: occurrence where
  "ex_ref = \<lparr>o_range = [6, 4, 9], o_symbol = py ''pkg/helper().'', o_symbol_roles = 0\<rparr>"

definition ex_env :: env where
  "ex_env = \<lparr>repo_path_str = py ''/r'',
     file_of = (\<lambda>p. \<lparr>fe_resolved = py ''/r/a.py'', fe_parts = [py ''a.py''], fe_exists = True,
                      fe_functions = Some [ex_outer, ex_inner]\<rparr>)\<rparr>"

definition ex_graph :: graph where
  "ex_graph =
     \<lparr>nodes = [\<lparr>nid = 0, labels = [py ''File''], n_path = Some (py ''/r/a.py''),
                n_name = Some (py ''a.py''), n_line_number = None, n_scip_symbol = None,
                n_relative_path = Some (py ''a.py'')\<rparr>,
               \<lparr>nid = 1, labels = [py ''Function''], n_path = Some (py ''/r/a.py''),
                n_name = Some (py ''inner''), n_line_number = Some 5, n_scip_symbol = None,
                n_relative_path = None\<rparr>],
      edges = [\<lparr>e_src = 0, e_rel = py ''CONTAINS'', e_dst = 1, e_scip_verified = None\<rparr>]\<rparr>"

definition ex_external_doc :: document where
  "ex_external_doc = \<lparr>d_relative_path = py ''../lib/b.py'', d_occurrences = [ex_ref],
     d_symbols = []\<rparr>"

text \<open>
  A verified call from the node \<open>c\<close>: some node of the target symbol is reached from
  \<open>c\<close> by a \<open>CALLS\<close> relationship whose \<open>scip_verified\<close> is true.
\<close>

definition verified_call :: "graph \<Rightarrow> nat \<Rightarrow> pystr \<Rightarrow> pystr \<Rightarrow> bool" where
  "verified_call g c tlab tsym \<longleftrightarrow>
     (\<exists>t\<in>set (nodes g). symbol_node tlab tsym t \<and>
        (\<exists>e\<in>set (edges g). edge_between (py ''CALLS'') c (nid t) e \<and>
           e_scip_verified e = Some True))"

definition ex_renamed :: func where
  "ex_renamed = \<lparr>f_name = py ''inner_v2'', f_line_number = 5, f_end_line = 10\<rparr>"

text \<open>
  A graph is free of local symbols when no node carries a \<open>scip_symbol\<close> that begins
  with the reserved prefix; a relationship touches a local symbol when one of its ends
  is such a node.
\<close>

definition local_free :: "graph \<Rightarrow> bool" where
  "local_free g \<longleftrightarrow> list_all (\<lambda>n. \<not> is_local_node n) (nodes g)"

definition touches_local :: "graph \<Rightarrow> edge \<Rightarrow> bool" where
  "touches_local g e \<longleftrightarrow>
     list_ex (\<lambda>n. is_local_node n \<and> (nid n = e_src e \<or> nid n = e_dst e)) (nodes g)"

definition ex_doc :: document where
  "ex_doc = \<lparr>d_relative_path = py ''a.py'',
     d_occurrences =
       [\<lparr>o_range = [2, 0, 5], o_symbol = py ''local 1'', o_symbol_roles = 1\<rparr>,
        \<lparr>o_range = [4, 4, 9], o_symbol = py ''pkg/inner().'', o_symbol_roles = 1\<rparr>,
        \<lparr>o_range = [6, 2, 3], o_symbol = py ''local 2'', o_symbol_roles = 0\<rparr>,
        ex_ref],
     d_symbols = []\<rparr>"

definition ex_index :: index where
  "ex_index = \<lparr>i_documents = [ex_doc], i_external_symbols = []\<rparr>"

definition ex_local_graph :: graph where
  "ex_local_graph =
     \<lparr>nodes = nodes ex_graph @
        [\<lparr>nid = 2, labels = [py ''Variable''], n_path = None, n_name = Some (py ''tmp''),
          n_line_number = None, n_scip_symbol = Some (py ''local 7''),
          n_relative_path = None\<rparr>],
      edges = edges ex_graph @
        [\<lparr>e_src = 1, e_rel = py ''CALLS'', e_dst = 2, e_scip_verified = Some True\<rparr>]\<rparr>"

section \<open>Structural parsers: data\<close>

text \<open>
  The values of the dictionaries that the parsers return. A dictionary is an
  association list in insertion order.
\<close>

datatype pyval =
  PNone | PBool bool | PInt int | PStr pystr | PList "pyval list" | PTuple "pyval list"
  | PDict "(pystr \<times> pyval) list"

type_synonym pydict = "(pystr \<times> pyval) list"

definition opt_str :: "pystr option \<Rightarrow> pyval" where
  "opt_str x = (case x of None \<Rightarrow> PNone | Some s \<Rightarrow> PStr s)"

text \<open>
  A node of a syntax tree, with the attributes the parsers read: its type, its text
  (decoded; a node spans whole characters of the source), its byte span, the rows of
  its start and end points, and its children.
\<close>

datatype ts_node =
  TsNode (ts_type: pystr) (ts_text: pystr) (ts_start_byte: nat) (ts_end_byte: nat)
    (ts_start_row: nat) (ts_end_row: nat) (ts_children: "ts_node list")

text \<open>
  A node handle as a query returns it: the node and its ancestors, nearest first, each
  with the index of the child that leads to the node. \<open>parent\<close> and
  \<open>prev_sibling\<close> are read from the ancestors.
\<close>

type_synonym handle = "ts_node \<times> (ts_node \<times> nat) list"

definition prev_siblings :: "handle \<Rightarrow> ts_node list" where
  "prev_siblings h =
     (case snd h of [] \<Rightarrow> [] | (p, i) # up \<Rightarrow> rev (take i (ts_children p)))"

text \<open>
  What the file system and the tree-sitter library answer: the bytes of a file
  (\<open>None\<close> when \<open>open\<close> raises), the tree of a source, and the captures of a query
  of the query table, by its key, on a root node.
\<close>

record ts_env =
  read_bytes :: "pystr \<Rightarrow> nat list option"
  ts_parse :: "nat list \<Rightarrow> ts_node"
  execute_query :: "pystr \<Rightarrow> ts_node \<Rightarrow> (handle \<times> pystr) list"

datatype parse_error = OSError | DecodeError


section \<open>Reading a source file\<close>

text \<open>
  The parsers open a file with \<open>encoding="utf-8", errors="ignore"\<close>. The decoder
  follows the bytes of one character at a time; a byte sequence that is not the UTF-8
  form of a character is an error that covers the bytes read so far of that character.
  The handler \<open>strict\<close> raises at the first error, \<open>ignore\<close> drops the bytes of the
  error, and \<open>replace\<close> puts U+FFFD in their place.
\<close>

datatype error_handler = Strict | Ignore | Replace

datatype decode_error = UnicodeDecodeError

definition is_cont :: "nat \<Rightarrow> bool" where
  "is_cont b \<longleftrightarrow> 128 \<le> b \<and> b \<le> 191"

text \<open>
  The range of the second byte after the lead byte \<open>b\<close> of a sequence of three or
  four bytes: overlong forms, surrogates and code points above U+10FFFF are excluded.
\<close>

definition second_ok :: "nat \<Rightarrow> nat \<Rightarrow> bool" where
  "second_ok b c \<longleftrightarrow>
     (if b = 224 then 160 \<le> c \<and> c \<le> 191
      else if b = 237 then 128 \<le> c \<and> c \<le> 159
      else if b = 240 then 144 \<le> c \<and> c \<le> 191
      else if b = 244 then 128 \<le> c \<and> c \<le> 143
      else is_cont c)"

text \<open>
  One step of the decoder at the head of the bytes: the character and the number of its
  bytes, or the number of bytes of the error.
\<close>

fun decode_step :: "nat list \<Rightarrow> (nat \<times> nat) + nat" where
  "decode_step [] = Inr 0"
| "decode_step (b # bs) =
     (if b < 128 then Inl (b, 1)
      else if 194 \<le> b \<and> b \<le> 223 then
        (case bs of
           c # r \<Rightarrow> if is_cont c then Inl ((b - 192) * 64 + (c - 128), 2) else Inr 1
         | [] \<Rightarrow> Inr 1)
      else if 224 \<le> b \<and> b \<le> 239 then
        (case bs of
           c # d # r \<Rightarrow>
             if \<not> second_ok b c then Inr 1
             else if \<not> is_cont d then Inr 2
             else Inl ((b - 224) * 4096 + (c - 128) * 64 + (d - 128), 3)
         | [c] \<Rightarrow> if second_ok b c then Inr 2 else Inr 1
         | [] \<Rightarrow> Inr 1)
      else if 240 \<le> b \<and> b \<le> 244 then
        (case bs of
           c # d # e # r \<Rightarrow>
             if \<not> second_ok b c then Inr 1
             else if \<not> is_cont d then Inr 2
             else if \<not> is_cont e then Inr 3
             else Inl ((b - 240) * 262144 + (c - 128) * 4096 + (d - 128) * 64 + (e - 128), 4)
         | [c, d] \<Rightarrow> if \<not> second_ok b c then Inr 1 else if \<not> is_cont d then Inr 2 else Inr 3
         | [c] \<Rightarrow> if second_ok b c then Inr 2 else Inr 1
         | [] \<Rightarrow> Inr 1)
      else Inr 1)"

text \<open>
  The decoder. The first argument counts the bytes still to skip: the bytes after the
  first of a character just decoded, or of an error just handled.
\<close>

fun utf8_decode_from :: "nat \<Rightarrow> error_handler \<Rightarrow> nat list \<Rightarrow> decode_error + pystr" where
  "utf8_decode_from skip h [] = Inr []"
| "utf8_decode_from skip h (b # bs) =
     (if 0 < skip then utf8_decode_from (skip - 1) h bs
      else
        (case decode_step (b # bs) of
           Inl (cp, n) \<Rightarrow>
             (case utf8_decode_from (n - 1) h bs of Inl e \<Rightarrow> Inl e
              | Inr s \<Rightarrow> Inr (cp # s))
         | Inr k \<Rightarrow>
             (case h of
                Strict \<Rightarrow> Inl UnicodeDecodeError
              | Ignore \<Rightarrow> utf8_decode_from (k - 1) h bs
              | Replace \<Rightarrow>
                  (case utf8_decode_from (k - 1) h bs of Inl e \<Rightarrow> Inl e
                   | Inr s \<Rightarrow> Inr (65533 # s)))))"

definition utf8_decode :: "error_handler \<Rightarrow> nat list \<Rightarrow> decode_error + pystr" where
  "utf8_decode h bs = utf8_decode_from 0 h bs"

text \<open>
  Text mode translates the line endings \<open>\r\n\<close> and \<open>\r\<close> to \<open>\n\<close>.
\<close>

fun universal_newlines :: "pystr \<Rightarrow> pystr" where
  "universal_newlines (a # b # rest) =
     (if a = 13 \<and> b = 10 then 10 # universal_newlines rest
      else if a = 13 then 10 # universal_newlines (b # rest)
      else a # universal_newlines (b # rest))"
| "universal_newlines [a] = (if a = 13 then [10] else [a])"
| "universal_newlines [] = []"

text \<open>
  \<open>bytes(source_code, "utf8")\<close>: the UTF-8 form of a string. The string comes from the
  decoder, which returns no surrogate, so the encoder does not raise.
\<close>

definition encode_char :: "nat \<Rightarrow> nat list" where
  "encode_char cp =
     (if cp < 128 then [cp]
      else if cp < 2048 then [192 + cp div 64, 128 + cp mod 64]
      else if cp < 65536 then [224 + cp div 4096, 128 + cp div 64 mod 64, 128 + cp mod 64]
      else [240 + cp div 262144, 128 + cp div 4096 mod 64, 128 + cp div 64 mod 64,
            128 + cp mod 64])"

definition utf8_encode :: "pystr \<Rightarrow> nat list" where
  "utf8_encode s = concat (map encode_char s)"

text \<open>
  \<open>with open(path, "r", encoding="utf-8", errors="ignore") as f: source_code = f.read()\<close>
\<close>

definition read_source :: "ts_env \<Rightarrow> pystr \<Rightarrow> parse_error + pystr" where
  "read_source te path =
     (case read_bytes te path of
        None \<Rightarrow> Inl OSError
      | Some bs \<Rightarrow>
          (case utf8_decode Ignore bs of
             Inl e \<Rightarrow> Inl DecodeError
           | Inr s \<Rightarrow> Inr (universal_newlines s)))"

section \<open>Elixir parser: helpers on the syntax tree\<close>

text \<open>
  The name of an enclosing \<open>call\<close> node in \<open>_get_parent_context\<close>: the first
  \<open>arguments\<close> child, its first child that is an \<open>alias\<close> or a \<open>call\<close>, and
  for a \<open>call\<close> its first \<open>identifier\<close> child.
\<close>

definition context_name :: "ts_node \<Rightarrow> pystr option" where
  "context_name anc =
     (case find (\<lambda>c. ts_type c = py ''arguments'') (ts_children anc) of
        None \<Rightarrow> None
      | Some arg_child \<Rightarrow>
          (case find (\<lambda>ac. ts_type ac = py ''alias'' \<or> ts_type ac = py ''call'')
                  (ts_children arg_child) of
             None \<Rightarrow> None
           | Some ac \<Rightarrow>
               if ts_type ac = py ''alias'' then Some (ts_text ac)
               else (case find (\<lambda>cc. ts_type cc = py ''identifier'') (ts_children ac) of
                       None \<Rightarrow> None
                     | Some name_node \<Rightarrow> Some (ts_text name_node))))"

text \<open>
  What one ancestor contributes: it is a \<open>call\<close>, its first \<open>identifier\<close> child
  is one of the wanted types, and its name is found and not empty.
\<close>

definition context_of :: "pystr list \<Rightarrow> ts_node \<Rightarrow> (pystr \<times> pystr \<times> int) option" where
  "context_of types anc =
     (if ts_type anc = py ''call'' then
        (case find (\<lambda>c. ts_type c = py ''identifier'') (ts_children anc) of
           None \<Rightarrow> None
         | Some child \<Rightarrow>
             if ts_text child \<in> set types then
               (case context_name anc of
                  None \<Rightarrow> None
                | Some name \<Rightarrow>
                    if name \<noteq> [] then Some (name, ts_text child, int (ts_start_row anc) + 1)
                    else None)
             else None)
      else None)"

text \<open>
  \<open>_get_parent_context\<close>: the walk over the ancestors; \<open>None\<close> is the result
  \<open>(None, None, None)\<close>.
\<close>

fun parent_context_walk ::
  "pystr list \<Rightarrow> (ts_node \<times> nat) list \<Rightarrow> (pystr \<times> pystr \<times> int) option" where
  "parent_context_walk types [] = None"
| "parent_context_walk types ((anc, i) # up) =
     (case context_of types anc of
        Some r \<Rightarrow> Some r
      | None \<Rightarrow> parent_context_walk types up)"

definition elixir_parent_context :: "handle \<Rightarrow> pystr list \<Rightarrow> (pystr \<times> pystr \<times> int) option" where
  "elixir_parent_context h types = parent_context_walk types (snd h)"

definition default_context_types :: "pystr list" where
  "default_context_types = [py ''defmodule'', py ''def'', py ''defp'']"

definition complexity_keywords :: "pystr list" where
  "complexity_keywords =
     [py ''case'', py ''cond'', py ''if'', py ''unless'', py ''with'', py ''try'',
      py ''rescue'', py ''catch'']"

definition complexity_operators :: "pystr list" where
  "complexity_operators = [py ''&&'', py ''||'', py ''and'', py ''or'']"

text \<open>\<open>_calculate_complexity\<close>: the traversal adds one per branching node.\<close>

fun complexity_walk :: "ts_node \<Rightarrow> int" where
  "complexity_walk (TsNode ty tx sb eb sr er cs) =
     (if ty \<in> set complexity_keywords then 1
      else if ty = py ''identifier'' \<and> tx \<in> set complexity_keywords then 1
      else if ty = py ''binary_operator'' \<and> list_ex (\<lambda>op. py_contains op tx) complexity_operators
        then 1
      else 0) + sum_list (map complexity_walk cs)"

definition calculate_complexity :: "ts_node \<Rightarrow> int" where
  "calculate_complexity n = 1 + complexity_walk n"

text \<open>\<open>_get_docstring\<close>: the walk over the previous siblings, nearest first.\<close>

fun docstring_walk :: "ts_node list \<Rightarrow> pystr option" where
  "docstring_walk [] = None"
| "docstring_walk (s # rest) =
     (if ts_type s = py ''unary_operator'' then
        (if py_startswith (ts_text s) (py ''@doc'') \<or> py_startswith (ts_text s) (py ''@moduledoc'')
         then Some (py_strip (ts_text s)) else docstring_walk rest)
      else if ts_type s = py ''comment'' then
        (if py_startswith (ts_text s) (py ''#'') then Some (py_strip (ts_text s))
         else docstring_walk rest)
      else None)"

definition elixir_get_docstring :: "handle \<Rightarrow> pystr option" where
  "elixir_get_docstring h = docstring_walk (prev_siblings h)"

section \<open>Grouping captures by their definition\<close>

text \<open>
  Every finder of the Elixir parser builds a dictionary with one record per capture of
  the whole definition (the key is the identity of the node object, and the captures of
  a query are distinct objects), in the order of the captures, and then gives every
  record the text of the captures it contains. A record is the handle of its node, the
  label of its capture and the fields set so far.
\<close>

type_synonym grouped = "handle \<times> pystr \<times> (pystr \<rightharpoonup> pystr)"

definition within :: "handle \<Rightarrow> handle \<Rightarrow> bool" where
  "within n r \<longleftrightarrow>
     ts_start_byte (fst n) \<ge> ts_start_byte (fst r) \<and> ts_end_byte (fst n) \<le> ts_end_byte (fst r)"

definition seed_records :: "pystr list \<Rightarrow> (handle \<times> pystr) list \<Rightarrow> grouped list" where
  "seed_records seeds caps =
     map (\<lambda>cap. (fst cap, snd cap, Map.empty)) (filter (\<lambda>cap. snd cap \<in> set seeds) caps)"

text \<open>
  The inner loop without \<open>break\<close>: every record that contains the node takes the
  text, in the field that the capture name selects.
\<close>

definition assign_all :: "(pystr \<times> pystr) list \<Rightarrow> handle \<times> pystr \<Rightarrow> grouped list \<Rightarrow> grouped list"
  where
  "assign_all field_of cap recs =
     (case map_of field_of (snd cap) of
        None \<Rightarrow> recs
      | Some key \<Rightarrow>
          map (\<lambda>r. if within (fst cap) (fst r)
                    then (fst r, fst (snd r), (snd (snd r))(key \<mapsto> ts_text (fst (fst cap))))
                    else r) recs)"

definition correlate_all ::
  "pystr list \<Rightarrow> (pystr \<times> pystr) list \<Rightarrow> (handle \<times> pystr) list \<Rightarrow> grouped list" where
  "correlate_all seeds field_of caps = fold (assign_all field_of) caps (seed_records seeds caps)"

text \<open>The inner loop with \<open>break\<close>: only the first record that contains the node.\<close>

fun assign_first_in :: "pystr \<Rightarrow> handle \<Rightarrow> grouped list \<Rightarrow> grouped list" where
  "assign_first_in key n [] = []"
| "assign_first_in key n (r # recs) =
     (if within n (fst r) then (fst r, fst (snd r), (snd (snd r))(key \<mapsto> ts_text (fst n))) # recs
      else r # assign_first_in key n recs)"

definition assign_first :: "(pystr \<times> pystr) list \<Rightarrow> handle \<times> pystr \<Rightarrow> grouped list \<Rightarrow> grouped list"
  where
  "assign_first field_of cap recs =
     (case map_of field_of (snd cap) of
        None \<Rightarrow> recs
      | Some key \<Rightarrow> assign_first_in key (fst cap) recs)"

definition correlate_first ::
  "pystr list \<Rightarrow> (pystr \<times> pystr) list \<Rightarrow> (handle \<times> pystr) list \<Rightarrow> grouped list" where
  "correlate_first seeds field_of caps = fold (assign_first field_of) caps (seed_records seeds caps)"

text \<open>\<open>x or default\<close> for a field that is \<open>None\<close> or a string.\<close>

definition or_default :: "pystr option \<Rightarrow> pystr \<Rightarrow> pystr" where
  "or_default x d = (case x of None \<Rightarrow> d | Some s \<Rightarrow> if s = [] then d else s)"

definition truthy :: "pystr option \<Rightarrow> bool" where
  "truthy x \<longleftrightarrow> (case x of None \<Rightarrow> False | Some s \<Rightarrow> s \<noteq> [])"


section \<open>Elixir parser: the finders\<close>

definition line_of :: "nat \<Rightarrow> pyval" where
  "line_of row = PInt (int row + 1)"

definition context_name_of :: "(pystr \<times> pystr \<times> int) option \<Rightarrow> pystr option" where
  "context_name_of c = (case c of None \<Rightarrow> None | Some (name, ident, line) \<Rightarrow> Some name)"

definition context_type_of :: "(pystr \<times> pystr \<times> int) option \<Rightarrow> pystr option" where
  "context_type_of c = (case c of None \<Rightarrow> None | Some (name, ident, line) \<Rightarrow> Some ident)"

definition context_tuple :: "(pystr \<times> pystr \<times> int) option \<Rightarrow> pyval" where
  "context_tuple c =
     (case c of None \<Rightarrow> PTuple [PNone, PNone, PNone]
      | Some (name, ident, line) \<Rightarrow> PTuple [PStr name, PStr ident, PInt line])"

text \<open>The keys \<open>source\<close> and \<open>docstring\<close> are added when \<open>index_source\<close> is set.\<close>

definition source_keys :: "bool \<Rightarrow> handle \<Rightarrow> pydict" where
  "source_keys index_source h =
     (if index_source
      then [(py ''source'', PStr (ts_text (fst h))),
            (py ''docstring'', opt_str (elixir_get_docstring h))]
      else [])"

definition function_entry :: "bool \<Rightarrow> grouped \<Rightarrow> pyval list" where
  "function_entry index_source r =
     (let h = fst r; m = snd (snd r)
      in if truthy (m (py ''name'')) then
           [PDict
             ([(py ''name'', opt_str (m (py ''name''))),
               (py ''line_number'', line_of (ts_start_row (fst h))),
               (py ''end_line'', line_of (ts_end_row (fst h))),
               (py ''args'', PList (map PStr (parse_arguments (or_default (m (py ''args'')) [])))),
               (py ''visibility'',
                  PStr (if or_default (m (py ''def_type'')) (py ''def'') = py ''defp''
                        then py ''private'' else py ''public'')),
               (py ''complexity'', PInt (calculate_complexity (fst h))),
               (py ''context'', opt_str (context_name_of
                  (elixir_parent_context h [py ''defmodule'']))),
               (py ''lang'', PStr (py ''elixir'')),
               (py ''is_dependency'', PBool False)] @ source_keys index_source h)]
         else [])"

definition elixir_find_functions :: "ts_env \<Rightarrow> bool \<Rightarrow> ts_node \<Rightarrow> pyval list" where
  "elixir_find_functions te index_source root =
     concat (map (function_entry index_source)
       (correlate_all [py ''func_def'']
          [(py ''func_name'', py ''name''), (py ''func_args'', py ''args''),
           (py ''def_type'', py ''def_type'')]
          (execute_query te (py ''functions'') root)))"

definition class_entry :: "bool \<Rightarrow> grouped \<Rightarrow> pyval list" where
  "class_entry index_source r =
     (let h = fst r; m = snd (snd r);
          c = elixir_parent_context h [py ''defmodule'']
      in if truthy (m (py ''name'')) then
           [PDict
             ([(py ''name'', opt_str (m (py ''name''))),
               (py ''line_number'', line_of (ts_start_row (fst h))),
               (py ''end_line'', line_of (ts_end_row (fst h))),
               (py ''bases'', PList []),
               (py ''context'', opt_str (context_name_of c)),
               (py ''context_type'', opt_str (context_type_of c)),
               (py ''kind'',
                  PStr (if fst (snd r) = py ''proto_def'' then py ''protocol'' else py ''module'')),
               (py ''decorators'', PList []),
               (py ''lang'', PStr (py ''elixir'')),
               (py ''is_dependency'', PBool False)] @ source_keys index_source h)]
         else [])"

definition elixir_find_classes :: "ts_env \<Rightarrow> bool \<Rightarrow> ts_node \<Rightarrow> pyval list" where
  "elixir_find_classes te index_source root =
     concat (map (class_entry index_source)
       (correlate_first [py ''module_def'', py ''proto_def'']
          [(py ''module_name'', py ''name''), (py ''proto_name'', py ''name'')]
          (execute_query te (py ''classes'') root)))"

definition import_entry :: "grouped \<Rightarrow> pyval list" where
  "import_entry r =
     (let h = fst r; m = snd (snd r)
      in if truthy (m (py ''import_type'')) \<and> truthy (m (py ''import_args'')) then
           (let raw_args = py_strip_chars (py ''()'') (py_strip (or_default (m (py ''import_args'')) []));
                parts = parse_arguments raw_args
            in [PDict
                 [(py ''name'', PStr (case parts of [] \<Rightarrow> raw_args | p # ps \<Rightarrow> p)),
                  (py ''full_import_name'', PStr (ts_text (fst h))),
                  (py ''import_type'', opt_str (m (py ''import_type''))),
                  (py ''line_number'', line_of (ts_start_row (fst h))),
                  (py ''alias'', PNone),
                  (py ''lang'', PStr (py ''elixir'')),
                  (py ''is_dependency'', PBool False)]])
         else [])"

definition elixir_find_imports :: "ts_env \<Rightarrow> ts_node \<Rightarrow> pyval list" where
  "elixir_find_imports te root =
     concat (map import_entry
       (correlate_all [py ''import_def'']
          [(py ''import_type'', py ''import_type''), (py ''import_args'', py ''import_args'')]
          (execute_query te (py ''imports'') root)))"

text \<open>
  A call record keeps the parsed arguments of its last \<open>call_args\<close> capture, and the
  empty list when it has none; the model keeps the text and parses it when the entry is
  built.
\<close>

definition call_entry :: "grouped \<Rightarrow> pyval list" where
  "call_entry r =
     (let h = fst r; m = snd (snd r)
      in if truthy (m (py ''method'')) then
           (let method = or_default (m (py ''method'')) [];
                full_name = (if truthy (m (py ''receiver''))
                             then or_default (m (py ''receiver'')) [] @ py ''.'' @ method
                             else method);
                c = elixir_parent_context h default_context_types;
                class_context =
                  (if context_type_of c = Some (py ''def'') \<or> context_type_of c = Some (py ''defp'')
                   then context_name_of (elixir_parent_context h [py ''defmodule''])
                   else if context_type_of c = Some (py ''defmodule'') then context_name_of c
                   else None)
            in [PDict
                 [(py ''name'', PStr method),
                  (py ''full_name'', PStr full_name),
                  (py ''line_number'', line_of (ts_start_row (fst h))),
                  (py ''args'',
                     PList (case m (py ''args'') of None \<Rightarrow> []
                            | Some t \<Rightarrow> map PStr (parse_arguments t))),
                  (py ''inferred_obj_type'', PNone),
                  (py ''context'', context_tuple c),
                  (py ''class_context'', opt_str class_context),
                  (py ''lang'', PStr (py ''elixir'')),
                  (py ''is_dependency'', PBool False)]])
         else [])"

definition elixir_find_calls :: "ts_env \<Rightarrow> ts_node \<Rightarrow> pyval list" where
  "elixir_find_calls te root =
     concat (map call_entry
       (correlate_all [py ''call_node'']
          [(py ''receiver'', py ''receiver''), (py ''method'', py ''method''),
           (py ''call_args'', py ''args'')]
          (execute_query te (py ''calls'') root)))"

definition variable_entry :: "grouped \<Rightarrow> pyval list" where
  "variable_entry r =
     (let h = fst r; m = snd (snd r);
          context = context_name_of (elixir_parent_context h [py ''defmodule''])
      in if truthy (m (py ''name'')) then
           [PDict
             [(py ''name'', PStr (py ''@'' @ or_default (m (py ''name'')) [])),
              (py ''line_number'', line_of (ts_start_row (fst h))),
              (py ''value'', opt_str (m (py ''value''))),
              (py ''type'', PStr (py ''module_attribute'')),
              (py ''context'', opt_str context),
              (py ''class_context'', opt_str context),
              (py ''lang'', PStr (py ''elixir'')),
              (py ''is_dependency'', PBool False)]]
         else [])"

definition elixir_find_variables :: "ts_env \<Rightarrow> ts_node \<Rightarrow> pyval list" where
  "elixir_find_variables te root =
     concat (map variable_entry
       (correlate_all [py ''module_attr'']
          [(py ''attr_name'', py ''name''), (py ''attr_value'', py ''value'')]
          (execute_query te (py ''variables'') root)))"

definition macro_entry :: "bool \<Rightarrow> grouped \<Rightarrow> pyval list" where
  "macro_entry index_source r =
     (let h = fst r; m = snd (snd r)
      in if truthy (m (py ''name'')) then
           [PDict
             ([(py ''name'', opt_str (m (py ''name''))),
               (py ''line_number'', line_of (ts_start_row (fst h))),
               (py ''end_line'', line_of (ts_end_row (fst h))),
               (py ''args'', PList (map PStr (parse_arguments (or_default (m (py ''args'')) [])))),
               (py ''context'', opt_str (context_name_of
                  (elixir_parent_context h [py ''defmodule'']))),
               (py ''lang'', PStr (py ''elixir'')),
               (py ''is_dependency'', PBool False)] @ source_keys index_source h)]
         else [])"

definition elixir_find_macros :: "ts_env \<Rightarrow> bool \<Rightarrow> ts_node \<Rightarrow> pyval list" where
  "elixir_find_macros te index_source root =
     concat (map (macro_entry index_source)
       (correlate_all [py ''macro_def'']
          [(py ''macro_name'', py ''name''), (py ''macro_args'', py ''args'')]
          (execute_query te (py ''macros'') root)))"

text \<open>\<open>ElixirTreeSitterParser.parse\<close>\<close>

definition elixir_parse :: "ts_env \<Rightarrow> pystr \<Rightarrow> bool \<Rightarrow> bool \<Rightarrow> parse_error + pydict" where
  "elixir_parse te path is_dependency index_source =
     (case read_source te path of
        Inl e \<Rightarrow> Inl e
      | Inr source_code \<Rightarrow>
          (let root_node = ts_parse te (utf8_encode source_code)
           in Inr [(py ''path'', PStr path),
                   (py ''functions'', PList (elixir_find_functions te index_source root_node)),
                   (py ''classes'', PList (elixir_find_classes te index_source root_node)),
                   (py ''variables'', PList (elixir_find_variables te root_node)),
                   (py ''imports'', PList (elixir_find_imports te root_node)),
                   (py ''function_calls'', PList (elixir_find_calls te root_node)),
                   (py ''macros'', PList (elixir_find_macros te index_source root_node)),
                   (py ''is_dependency'', PBool is_dependency),
                   (py ''lang'', PStr (py ''elixir''))]))"


section \<open>HEEx parser\<close>

text \<open>
  The name of a component, tag or slot: the first child whose type is one of
  \<open>outer\<close>, and its first child of type \<open>inner\<close>.
\<close>

definition heex_name :: "pystr list \<Rightarrow> pystr \<Rightarrow> ts_node \<Rightarrow> pystr option" where
  "heex_name outer inner n =
     (case find (\<lambda>child. ts_type child \<in> set outer) (ts_children n) of
        None \<Rightarrow> None
      | Some child \<Rightarrow>
          (case find (\<lambda>gc. ts_type gc = inner) (ts_children child) of
             None \<Rightarrow> None
           | Some gc \<Rightarrow> Some (ts_text gc)))"

definition heex_entry :: "bool \<Rightarrow> pystr option \<Rightarrow> handle \<Rightarrow> pyval list" where
  "heex_entry index_source name h =
     (if truthy name then
        [PDict
          ([(py ''name'', opt_str name),
            (py ''line_number'', line_of (ts_start_row (fst h))),
            (py ''end_line'', line_of (ts_end_row (fst h))),
            (py ''lang'', PStr (py ''heex'')),
            (py ''is_dependency'', PBool False)] @
           (if index_source then [(py ''source'', PStr (ts_text (fst h)))] else []))]
      else [])"

definition heex_find_components :: "ts_env \<Rightarrow> bool \<Rightarrow> ts_node \<Rightarrow> pyval list" where
  "heex_find_components te index_source root =
     concat (map (\<lambda>cap. heex_entry index_source
                   (heex_name [py ''start_component'', py ''self_closing_component'']
                      (py ''component_name'') (fst (fst cap))) (fst cap))
       (filter (\<lambda>cap. snd cap = py ''component'') (execute_query te (py ''components'') root)))"

definition heex_find_tags :: "ts_env \<Rightarrow> bool \<Rightarrow> ts_node \<Rightarrow> pyval list" where
  "heex_find_tags te index_source root =
     concat (map (\<lambda>cap. heex_entry index_source
                   (heex_name [py ''start_tag''] (py ''tag_name'') (fst (fst cap))) (fst cap))
       (filter (\<lambda>cap. snd cap = py ''tag'') (execute_query te (py ''tags'') root)))"

definition heex_find_slots :: "ts_env \<Rightarrow> bool \<Rightarrow> ts_node \<Rightarrow> pyval list" where
  "heex_find_slots te index_source root =
     concat (map (\<lambda>cap. heex_entry index_source
                   (heex_name [py ''start_slot''] (py ''slot_name'') (fst (fst cap))) (fst cap))
       (filter (\<lambda>cap. snd cap = py ''slot'') (execute_query te (py ''slots'') root)))"

definition heex_find_directives :: "ts_env \<Rightarrow> ts_node \<Rightarrow> pyval list" where
  "heex_find_directives te root =
     map (\<lambda>cap. PDict
            [(py ''name'', PStr (py_strip (ts_text (fst (fst cap))))),
             (py ''line_number'', line_of (ts_start_row (fst (fst cap)))),
             (py ''end_line'', line_of (ts_end_row (fst (fst cap)))),
             (py ''lang'', PStr (py ''heex'')),
             (py ''is_dependency'', PBool False)])
       (filter (\<lambda>cap. snd cap = py ''directive'') (execute_query te (py ''directives'') root))"

text \<open>\<open>comp_text.rsplit('.', 1)[0]\<close> for a text that contains a dot.\<close>

definition before_last_dot :: "pystr \<Rightarrow> pystr" where
  "before_last_dot s = rev (tl (dropWhile (\<lambda>c. c \<noteq> 46) (rev s)))"

text \<open>
  The loop of \<open>_find_imports\<close>, with the set \<open>seen\<close> and the list \<open>imports\<close> as
  its state.
\<close>

fun heex_imports_loop :: "(handle \<times> pystr) list \<Rightarrow> pystr list \<Rightarrow> pyval list \<Rightarrow> pyval list" where
  "heex_imports_loop [] seen imports = imports"
| "heex_imports_loop (cap # caps) seen imports =
     (let comp_text = ts_text (fst (fst cap));
          module_name = before_last_dot comp_text
      in if snd cap = py ''comp_name'' \<and> 46 \<in> set comp_text \<and>
            \<not> py_startswith comp_text (py ''.'') \<and> module_name \<notin> set seen
         then heex_imports_loop caps (module_name # seen)
                (imports @
                 [PDict
                   [(py ''name'', PStr module_name),
                    (py ''full_import_name'', PStr comp_text),
                    (py ''line_number'', line_of (ts_start_row (fst (fst cap)))),
                    (py ''alias'', PNone),
                    (py ''lang'', PStr (py ''heex'')),
                    (py ''is_dependency'', PBool False)]])
         else heex_imports_loop caps seen imports)"

definition heex_find_imports :: "ts_env \<Rightarrow> ts_node \<Rightarrow> pyval list" where
  "heex_find_imports te root =
     heex_imports_loop (execute_query te (py ''component_names'') root) [] []"

text \<open>
  \<open>HeexTreeSitterParser.parse\<close>. The tags and the slots are computed and not
  returned.
\<close>

definition heex_parse :: "ts_env \<Rightarrow> pystr \<Rightarrow> bool \<Rightarrow> bool \<Rightarrow> parse_error + pydict" where
  "heex_parse te path is_dependency index_source =
     (case read_source te path of
        Inl e \<Rightarrow> Inl e
      | Inr source_code \<Rightarrow>
          (let root_node = ts_parse te (utf8_encode source_code);
               components = heex_find_components te index_source root_node;
               tags = heex_find_tags te index_source root_node;
               directives = heex_find_directives te root_node;
               slots = heex_find_slots te index_source root_node;
               imports = heex_find_imports te root_node
           in Inr [(py ''path'', PStr path),
                   (py ''functions'', PList components),
                   (py ''classes'', PList []),
                   (py ''variables'', PList directives),
                   (py ''imports'', PList imports),
                   (py ''function_calls'', PList []),
                   (py ''is_dependency'', PBool is_dependency),
                   (py ''lang'', PStr (py ''heex''))]))"


section \<open>Reading the dictionaries of a parse\<close>

text \<open>
  The entries under a key of a structural record, and an entry that carries a given
  \<open>lang\<close> tag and a given \<open>is_dependency\<close> value.
\<close>

definition entries_of :: "pydict \<Rightarrow> pystr \<Rightarrow> pyval list" where
  "entries_of r k = (case map_of r k of Some (PList es) \<Rightarrow> es | _ \<Rightarrow> [])"

definition entry_tagged :: "pystr \<Rightarrow> bool \<Rightarrow> pyval \<Rightarrow> bool" where
  "entry_tagged lang dep e \<longleftrightarrow>
     (case e of
        PDict d \<Rightarrow> map_of d (py ''lang'') = Some (PStr lang) \<and>
                   map_of d (py ''is_dependency'') = Some (PBool dep)
      | _ \<Rightarrow> False)"

definition entry_keys :: "pystr list" where
  "entry_keys = [py ''functions'', py ''classes'', py ''imports'', py ''function_calls'',
     py ''variables'', py ''macros'']"

definition parsed :: "parse_error + pydict \<Rightarrow> pydict" where
  "parsed x = (case x of Inl e \<Rightarrow> [] | Inr r \<Rightarrow> r)"

section \<open>Properties of argument splitting\<close>

lemma push_arg_nonempty: "[] \<notin> set args \<Longrightarrow> [] \<notin> set (push_arg args current)"
  by (simp add: push_arg_def Let_def)

lemma split_loop_nonempty: "[] \<notin> set args \<Longrightarrow> [] \<notin> set (split_loop t args depth current)"
  by (induction t arbitrary: args depth current) (simp_all add: push_arg_nonempty)

lemma py_strip_empty_iff: "py_strip s = [] \<longleftrightarrow> list_all py_isspace s"
proof -
  have "py_strip s = [] \<longleftrightarrow> dropWhile py_isspace (rev (dropWhile py_isspace s)) = []"
    by (simp add: py_strip_def)
  also have "\<dots> \<longleftrightarrow> list_all py_isspace (dropWhile py_isspace s)"
    by (simp add: dropWhile_eq_Nil_conv list_all_iff)
  also have "\<dots> \<longleftrightarrow> list_all py_isspace s"
  proof
    assume a: "list_all py_isspace (dropWhile py_isspace s)"
    show "list_all py_isspace s"
    proof (cases "dropWhile py_isspace s")
      case Nil
      then show ?thesis by (simp add: dropWhile_eq_Nil_conv list_all_iff)
    next
      case (Cons x xs)
      then have "\<not> py_isspace x" by (metis hd_dropWhile list.sel(1) list.distinct(1))
      with a Cons show ?thesis by simp
    qed
  next
    assume "list_all py_isspace s"
    then show "list_all py_isspace (dropWhile py_isspace s)"
      by (auto simp: list_all_iff dest: set_dropWhileD)
  qed
  finally show ?thesis .
qed

lemma set_py_strip_chars: "set (py_strip_chars cs s) \<subseteq> set s"
proof -
  have "set (py_strip_chars cs s) \<subseteq> set (dropWhile (\<lambda>c. c \<in> set cs) s)"
    unfolding py_strip_chars_def using set_dropWhileD by fastforce
  also have "\<dots> \<subseteq> set s" using set_dropWhileD by fastforce
  finally show ?thesis .
qed

lemma parse_arguments_blank: "py_strip s = [] \<Longrightarrow> parse_arguments s = []"
proof -
  assume "py_strip s = []"
  then have "list_all py_isspace s" by (simp add: py_strip_empty_iff)
  then have "list_all py_isspace (py_strip_chars (py ''()'') s)"
    using set_py_strip_chars [of "py ''()''" s] by (auto simp: list_all_iff)
  then have "py_strip (py_strip_chars (py ''()'') s) = []" by (simp add: py_strip_empty_iff)
  then show ?thesis by (simp add: parse_arguments_def)
qed

lemmas split_eval = parse_arguments_def py_def py_strip_chars_def py_strip_def py_isspace_def
  is_open_def is_close_def comma_def push_arg_def

text \<open>
  Claim C10. For every input string, \<open>_parse_arguments\<close> returns no empty-string
  element, and an argument text that is empty or consists of whitespace only yields the
  empty list. Empty items between consecutive top-level commas and after a trailing
  comma are therefore dropped.
\<close>

theorem parse_arguments_no_empty:
  "[] \<notin> set (parse_arguments s) \<and> (py_strip s = [] \<longrightarrow> parse_arguments s = [])"
  by (simp add: parse_arguments_blank) (simp add: parse_arguments_def Let_def split_loop_nonempty)

theorem parse_arguments_no_empty_witness:
  "py_strip (py '' '') = [] \<and> parse_arguments (py '' '') = []
   \<and> parse_arguments (py ''a,,b,'') = [py ''a'', py ''b'']
   \<and> [] \<notin> set (parse_arguments (py ''a,,b,''))"
  using parse_arguments_no_empty [of "py '' ''"] parse_arguments_no_empty [of "py ''a,,b,''"]
  by (simp add: split_eval)

text \<open>
  Claim C6. The argument text of a call is split only at commas outside every nested
  delimiter. The code strips every leading and trailing parenthesis with
  \<open>strip("()")\<close>, not one pair, so the depth counter starts inside the text: for the
  argument text \<open>((x), f(y, z))\<close> of the call \<open>Foo.bar((x), f(y, z))\<close> the comma
  between the two arguments is not a split point, and the comma inside the nested call
  \<open>f(y, z)\<close> is.
\<close>

theorem parse_arguments_splits_nested_call:
  "parse_arguments (py ''((x), f(y, z))'') = [py ''x), f(y'', py ''z'']"
  by (simp add: split_eval)

text \<open>
  The example of the specification is split into its three top-level arguments.
\<close>

theorem parse_arguments_example:
  "parse_arguments (py ''(a, g(b, c), d)'') = [py ''a'', py ''g(b, c)'', py ''d'']"
  by (simp add: split_eval)

section \<open>Properties of the precise-reference indexer\<close>

lemma hd_sort_key_min:
  assumes "xs \<noteq> []"
  shows "hd (sort_key k xs) \<in> set xs \<and> (\<forall>x\<in>set xs. k (hd (sort_key k xs)) \<le> k x)"
proof -
  let ?ys = "sort_key k xs"
  have ne: "?ys \<noteq> []" using assms by (metis length_sort list.size(3) length_0_conv)
  then obtain y ys where ys: "?ys = y # ys" by (cases ?ys) auto
  have "sorted (map k ?ys)" by (rule sorted_sort_key)
  with ys have "\<forall>x\<in>set ys. k y \<le> k x" by simp
  moreover have "set ?ys = set xs" by simp
  ultimately show ?thesis using ys by (metis list.sel(1) list.set_intros(1) order_refl set_ConsD)
qed

lemma nodes_merge_edge [simp]: "nodes (merge_edge rel ab g) = nodes g"
  by (simp add: merge_edge_def)

lemma nodes_merge_edges [simp]: "nodes (merge_edges rel rows g) = nodes g"
  unfolding merge_edges_def by (induction rows arbitrary: g) simp_all

lemma nodes_verify_edges [simp]: "nodes (verify_edges rel rows g) = nodes g"
  by (simp add: verify_edges_def)

lemma edges_merge_node [simp]: "edges (merge_node P mk g) = edges g"
  by (simp add: merge_node_def)

lemma edges_set_nodes [simp]: "edges (set_nodes P f g) = edges g"
  by (simp add: set_nodes_def)

lemma merge_node_ex: "P (mk (fresh_id g)) \<Longrightarrow> list_ex P (nodes (merge_node P mk g))"
  by (simp add: merge_node_def)

lemma merge_edge_mono: "set (edges g) \<subseteq> set (edges (merge_edge rel ab g))"
  by (auto simp: merge_edge_def)

lemma merge_edges_mono: "set (edges g) \<subseteq> set (edges (merge_edges rel rows g))"
  unfolding merge_edges_def
proof (induction rows arbitrary: g)
  case Nil
  show ?case by simp
next
  case (Cons r rows)
  show ?case using merge_edge_mono [of g rel r] Cons [of "merge_edge rel r g"] by auto
qed

lemma merge_edge_ex: "list_ex (edge_between rel (fst ab) (snd ab)) (edges (merge_edge rel ab g))"
  by (auto simp: merge_edge_def edge_between_def list_ex_iff)

lemma merge_edges_ex:
  "ab \<in> set rows \<Longrightarrow> list_ex (edge_between rel (fst ab) (snd ab)) (edges (merge_edges rel rows g))"
  unfolding merge_edges_def
proof (induction rows arbitrary: g)
  case Nil
  then show ?case by simp
next
  case (Cons r rows)
  show ?case
  proof (cases "ab \<in> set rows")
    case True
    then show ?thesis using Cons.IH by simp
  next
    case False
    with Cons.prems have "ab = r" by simp
    then have "list_ex (edge_between rel (fst ab) (snd ab)) (edges (merge_edge rel r g))"
      by (simp add: merge_edge_ex)
    then show ?thesis
      using merge_edges_mono [of "merge_edge rel r g" rel rows]
      by (auto simp: list_ex_iff merge_edges_def)
  qed
qed

lemma merge_edge_new:
  "e \<in> set (edges (merge_edge rel ab g)) \<Longrightarrow> e \<in> set (edges g) \<or>
     e = \<lparr>e_src = fst ab, e_rel = rel, e_dst = snd ab, e_scip_verified = None\<rparr>"
  by (auto simp: merge_edge_def split: if_splits)

lemma merge_edges_new:
  "e \<in> set (edges (merge_edges rel rows g)) \<Longrightarrow> e \<in> set (edges g) \<or>
     (\<exists>ab\<in>set rows. e = \<lparr>e_src = fst ab, e_rel = rel, e_dst = snd ab, e_scip_verified = None\<rparr>)"
  unfolding merge_edges_def
proof (induction rows arbitrary: g)
  case Nil
  then show ?case by simp
next
  case (Cons r rows)
  from Cons.IH [of "merge_edge rel r g"] Cons.prems
  show ?case using merge_edge_new [of e rel r g] by auto
qed

lemma edge_between_update [simp]:
  "edge_between rel a b (e\<lparr>e_scip_verified := v\<rparr>) = edge_between rel a b e"
  by (simp add: edge_between_def)

lemma list_ex_map: "list_ex P (map f xs) = list_ex (\<lambda>x. P (f x)) xs"
  by (induction xs) auto

lemma edge_between_verify:
  "list_ex (edge_between rel a b) (edges (verify_edges rel' rows g)) \<longleftrightarrow>
   list_ex (edge_between rel a b) (edges g)"
proof -
  have "\<And>e. edge_between rel a b
          (if bound_edge rel' rows e then e\<lparr>e_scip_verified := Some True\<rparr> else e) =
        edge_between rel a b e"
    by simp
  then show ?thesis by (simp add: verify_edges_def list_ex_map)
qed

lemma rows_of_iff:
  "ab \<in> set (rows_of as bs) \<longleftrightarrow> (\<exists>a\<in>set as. \<exists>b\<in>set bs. ab = (nid a, nid b))"
  by (auto simp: rows_of_def)

lemma symbol_node_new:
  "symbol_node l s ((new_node i l)\<lparr>n_scip_symbol := Some s, n_name := x\<rparr>)"
  "symbol_node l s ((new_node i l)\<lparr>n_scip_symbol := Some s\<rparr>)"
  by (simp_all add: symbol_node_def has_label_def new_node_def)

lemma upsert_call_none:
  "match_nodes cp g = [] \<Longrightarrow> upsert_call cp tlab tsym tnm g = (g, 0)"
  by (simp add: upsert_call_def)

lemma sum_list_pos:
  fixes f :: "'a \<Rightarrow> nat"
  shows "x \<in> set xs \<Longrightarrow> 0 < f x \<Longrightarrow> 0 < sum_list (map f xs)"
  by (induction xs) auto

lemma upsert_call_unfold:
  "match_nodes cp g \<noteq> [] \<Longrightarrow> upsert_call cp tlab tsym tnm g =
     (let g1 = merge_node (symbol_node tlab tsym)
                 (\<lambda>i. (new_node i tlab)\<lparr>n_scip_symbol := Some tsym, n_name := Some tnm\<rparr>) g;
          rows = rows_of (match_nodes cp g) (match_nodes (symbol_node tlab tsym) g1);
          g2 = verify_edges (py ''CALLS'') rows (merge_edges (py ''CALLS'') rows g1)
      in (g2, sum_list (map (\<lambda>ab. length (filter (edge_between (py ''CALLS'')
                                     (fst ab) (snd ab)) (edges g2))) rows)))"
  unfolding upsert_call_def by (simp only: Let_def if_False)

lemma upsert_call_some:
  assumes "match_nodes cp g \<noteq> []"
  shows "0 < snd (upsert_call cp tlab tsym tnm g)"
proof -
  define g1 where "g1 = merge_node (symbol_node tlab tsym)
     (\<lambda>i. (new_node i tlab)\<lparr>n_scip_symbol := Some tsym, n_name := Some tnm\<rparr>) g"
  define rows where "rows = rows_of (match_nodes cp g) (match_nodes (symbol_node tlab tsym) g1)"
  define g2 where "g2 = verify_edges (py ''CALLS'') rows (merge_edges (py ''CALLS'') rows g1)"
  define f where "f = (\<lambda>ab. length (filter (edge_between (py ''CALLS'') (fst ab) (snd ab)) (edges g2)))"
  have "list_ex (symbol_node tlab tsym) (nodes g1)"
    unfolding g1_def by (rule merge_node_ex) (rule symbol_node_new)
  then obtain t where t: "t \<in> set (match_nodes (symbol_node tlab tsym) g1)"
    unfolding list_ex_iff match_nodes_def by auto
  from assms obtain c where c: "c \<in> set (match_nodes cp g)" by (cases "match_nodes cp g") auto
  from c t have r: "(nid c, nid t) \<in> set rows" unfolding rows_def rows_of_iff by blast
  have "list_ex (edge_between (py ''CALLS'') (fst (nid c, nid t)) (snd (nid c, nid t)))
          (edges (merge_edges (py ''CALLS'') rows g1))"
    using r by (rule merge_edges_ex)
  then have "list_ex (edge_between (py ''CALLS'') (nid c) (nid t)) (edges g2)"
    unfolding g2_def edge_between_verify by simp
  then have "0 < f (nid c, nid t)"
    unfolding f_def list_ex_iff by (auto simp: filter_empty_conv)
  then have "0 < sum_list (map f rows)" using sum_list_pos [of "(nid c, nid t)" rows f] r by blast
  moreover have "upsert_call cp tlab tsym tnm g = (g2, sum_list (map f rows))"
    unfolding upsert_call_unfold [OF assms] g1_def [symmetric] Let_def rows_def [symmetric]
      g2_def [symmetric] f_def ..
  ultimately show ?thesis by simp
qed

lemma link_call_cases:
  "link_call path caller tlab tsym tnm g =
     (if match_nodes (is_caller path (\<lambda>n. n_name n = Some (f_name caller))) g \<noteq> []
      then fst (upsert_call (is_caller path (\<lambda>n. n_name n = Some (f_name caller))) tlab tsym tnm g)
      else fst (upsert_call (is_caller path (\<lambda>n. n_line_number n = Some (f_line_number caller)))
                  tlab tsym tnm g))"
proof -
  define byname where "byname = is_caller path (\<lambda>n. n_name n = Some (f_name caller))"
  define byline where "byline = is_caller path (\<lambda>n. n_line_number n = Some (f_line_number caller))"
  have l: "link_call path caller tlab tsym tnm g =
     (case upsert_call byname tlab tsym tnm g of
        (g1, created) \<Rightarrow>
          if created = 0 then fst (upsert_call byline tlab tsym tnm g1) else g1)"
    unfolding link_call_def byname_def byline_def ..
  show ?thesis
    unfolding byname_def [symmetric] byline_def [symmetric]
  proof (cases "match_nodes byname g = []")
    case True
    then show "link_call path caller tlab tsym tnm g =
      (if match_nodes byname g \<noteq> [] then fst (upsert_call byname tlab tsym tnm g)
       else fst (upsert_call byline tlab tsym tnm g))"
      by (simp add: l upsert_call_none)
  next
    case False
    obtain g1 created where u: "upsert_call byname tlab tsym tnm g = (g1, created)"
      by (cases "upsert_call byname tlab tsym tnm g")
    from upsert_call_some [OF False, of tlab tsym tnm] u have "created \<noteq> 0" by simp
    with u False show "link_call path caller tlab tsym tnm g =
      (if match_nodes byname g \<noteq> [] then fst (upsert_call byname tlab tsym tnm g)
       else fst (upsert_call byline tlab tsym tnm g))"
      by (simp add: l)
  qed
qed

text \<open>
  Claim C1. A reference at line \<open>ref_line\<close> is attributed to a function whose span
  contains the line and whose span is the smallest among all functions that contain it;
  no function is chosen exactly when no span contains the line, and then a reference
  that is not local leaves the graph as it is: no relationship is written.
\<close>

theorem resolve_caller_narrowest:
  "(resolve_caller functions ref_line = None \<longleftrightarrow>
      (\<forall>f\<in>set functions. \<not> contains_line ref_line f)) \<and>
   (\<forall>caller. resolve_caller functions ref_line = Some caller \<longrightarrow>
      caller \<in> set functions \<and> contains_line ref_line caller \<and>
      (\<forall>f\<in>set functions. contains_line ref_line f \<longrightarrow> span caller \<le> span f)) \<and>
   (\<not> is_local (o_symbol ref) \<and> (\<forall>f\<in>set functions. \<not> contains_line ref_line f) \<longrightarrow>
      link_reference symbol_map file_path_str functions ref ref_line g = g)"
proof (intro conjI allI impI)
  show "resolve_caller functions ref_line = None \<longleftrightarrow>
      (\<forall>f\<in>set functions. \<not> contains_line ref_line f)"
    by (auto simp: resolve_caller_def Let_def filter_empty_conv)
next
  fix caller
  assume a: "resolve_caller functions ref_line = Some caller"
  let ?c = "filter (contains_line ref_line) functions"
  from a have ne: "?c \<noteq> []" and c: "caller = hd (sort_key span ?c)"
    by (auto simp: resolve_caller_def Let_def split: if_splits)
  from hd_sort_key_min [OF ne, of span] c
  have m: "caller \<in> set ?c" and le: "\<forall>x\<in>set ?c. span caller \<le> span x" by auto
  from m show "caller \<in> set functions" by simp
  from m show "contains_line ref_line caller" by simp
  from le show "\<forall>f\<in>set functions. contains_line ref_line f \<longrightarrow> span caller \<le> span f" by simp
next
  assume "\<not> is_local (o_symbol ref) \<and> (\<forall>f\<in>set functions. \<not> contains_line ref_line f)"
  then have "resolve_caller functions ref_line = None"
    by (auto simp: resolve_caller_def Let_def filter_empty_conv)
  then show "link_reference symbol_map file_path_str functions ref ref_line g = g"
    by (simp add: link_reference_def)
qed

lemmas example_eval = ex_outer_def ex_inner_def ex_ref_def ex_env_def ex_graph_def
  ex_external_doc_def py_def py_startswith_def contains_line_def span_def is_local_def

theorem resolve_caller_narrowest_witness:
  "resolve_caller [ex_outer, ex_inner] 7 = Some ex_inner \<and>
   span ex_inner \<le> span ex_outer \<and>
   resolve_caller [ex_outer, ex_inner] 25 = None \<and>
   \<not> is_local (o_symbol ex_ref) \<and>
   link_reference Map.empty (py ''/r/a.py'') [ex_outer, ex_inner] ex_ref 25 ex_graph = ex_graph"
  using resolve_caller_narrowest [of "[ex_outer, ex_inner]" 7 ex_ref Map.empty
      "py ''/r/a.py''" ex_graph]
    resolve_caller_narrowest [of "[ex_outer, ex_inner]" 25 ex_ref Map.empty
      "py ''/r/a.py''" ex_graph]
  by (simp add: example_eval resolve_caller_def)

text \<open>
  Claim C8. A document whose relative path begins with the parent-directory marker is
  skipped: processing it raises nothing and returns the graph unchanged, so no file
  node, no directory node, no definition node and no relationship is written.
\<close>

theorem process_document_skips_external:
  "py_startswith (d_relative_path doc) (py ''..'') \<Longrightarrow>
     process_document ev symbol_map doc g = (None, g)"
  by (simp add: process_document_def)

theorem process_document_skips_external_witness:
  "py_startswith (d_relative_path ex_external_doc) (py ''..'') \<and>
   process_document ex_env Map.empty ex_external_doc ex_graph = (None, ex_graph)"
  using process_document_skips_external [of ex_external_doc ex_env Map.empty ex_graph]
  by (simp add: example_eval)

lemma upsert_call_effect:
  assumes ne: "match_nodes cp g \<noteq> []"
  shows "\<forall>c\<in>set (match_nodes cp g).
           verified_call (fst (upsert_call cp tlab tsym tnm g)) (nid c) tlab tsym"
    and "\<forall>e\<in>set (edges (fst (upsert_call cp tlab tsym tnm g))). e \<notin> set (edges g) \<longrightarrow>
           e_rel e = py ''CALLS'' \<and> e_scip_verified e = Some True \<and>
           e_src e \<in> nid ` set (match_nodes cp g)"
proof -
  define g' where "g' = fst (upsert_call cp tlab tsym tnm g)"
  define g1 where "g1 = merge_node (symbol_node tlab tsym)
     (\<lambda>i. (new_node i tlab)\<lparr>n_scip_symbol := Some tsym, n_name := Some tnm\<rparr>) g"
  define rows where "rows = rows_of (match_nodes cp g) (match_nodes (symbol_node tlab tsym) g1)"
  define gm where "gm = merge_edges (py ''CALLS'') rows g1"
  define v where "v = (\<lambda>e. if bound_edge (py ''CALLS'') rows e
                          then e\<lparr>e_scip_verified := Some True\<rparr> else e)"
  have "upsert_call cp tlab tsym tnm g =
     (verify_edges (py ''CALLS'') rows gm,
      sum_list (map (\<lambda>ab. length (filter (edge_between (py ''CALLS'') (fst ab) (snd ab))
         (edges (verify_edges (py ''CALLS'') rows gm)))) rows))"
    unfolding upsert_call_unfold [OF ne] g1_def [symmetric] Let_def rows_def [symmetric]
      gm_def [symmetric] ..
  then have g': "g' = verify_edges (py ''CALLS'') rows gm" by (simp add: g'_def)
  have nodes': "nodes g' = nodes g1" by (simp add: g' gm_def)
  have edges': "edges g' = map v (edges gm)" by (simp add: g' verify_edges_def v_def)
  have edges1: "edges g1 = edges g" by (simp add: g1_def)
  have "list_ex (symbol_node tlab tsym) (nodes g1)"
    unfolding g1_def by (rule merge_node_ex) (rule symbol_node_new)
  then obtain t where t: "t \<in> set (nodes g1)" "symbol_node tlab tsym t"
    unfolding list_ex_iff by auto
  show "\<forall>c\<in>set (match_nodes cp g).
           verified_call (fst (upsert_call cp tlab tsym tnm g)) (nid c) tlab tsym"
    unfolding g'_def [symmetric]
  proof
    fix c assume c: "c \<in> set (match_nodes cp g)"
    from c t have r: "(nid c, nid t) \<in> set rows"
      unfolding rows_def rows_of_iff match_nodes_def by auto
    have "list_ex (edge_between (py ''CALLS'') (fst (nid c, nid t)) (snd (nid c, nid t)))
            (edges gm)"
      unfolding gm_def using r by (rule merge_edges_ex)
    then obtain e0 where e0: "e0 \<in> set (edges gm)" "edge_between (py ''CALLS'') (nid c) (nid t) e0"
      unfolding list_ex_iff by auto
    from e0(2) r have b: "bound_edge (py ''CALLS'') rows e0"
      by (simp add: bound_edge_def edge_between_def)
    from e0(1) have "v e0 \<in> set (edges g')" by (simp add: edges')
    moreover from b have "v e0 = e0\<lparr>e_scip_verified := Some True\<rparr>" by (simp add: v_def)
    ultimately have "e0\<lparr>e_scip_verified := Some True\<rparr> \<in> set (edges g')" by simp
    moreover have "edge_between (py ''CALLS'') (nid c) (nid t) (e0\<lparr>e_scip_verified := Some True\<rparr>)"
      using e0(2) by simp
    moreover have "e_scip_verified (e0\<lparr>e_scip_verified := Some True\<rparr>) = Some True" by simp
    moreover have "t \<in> set (nodes g')" using t nodes' by simp
    ultimately show "verified_call g' (nid c) tlab tsym"
      unfolding verified_call_def using t(2) by blast
  qed
  show "\<forall>e\<in>set (edges (fst (upsert_call cp tlab tsym tnm g))). e \<notin> set (edges g) \<longrightarrow>
           e_rel e = py ''CALLS'' \<and> e_scip_verified e = Some True \<and>
           e_src e \<in> nid ` set (match_nodes cp g)"
    unfolding g'_def [symmetric]
  proof (intro ballI impI)
    fix e assume e: "e \<in> set (edges g')" and new: "e \<notin> set (edges g)"
    from e obtain e0 where e0: "e0 \<in> set (edges gm)" "e = v e0" by (auto simp: edges')
    have b: "bound_edge (py ''CALLS'') rows e0"
    proof (rule ccontr)
      assume nb: "\<not> bound_edge (py ''CALLS'') rows e0"
      then have "e = e0" by (simp add: e0(2) v_def)
      with e0(1) new edges1 merge_edges_new [of e0 "py ''CALLS''" rows g1]
      obtain ab where "ab \<in> set rows"
        "e0 = \<lparr>e_src = fst ab, e_rel = py ''CALLS'', e_dst = snd ab, e_scip_verified = None\<rparr>"
        unfolding gm_def by auto
      then have "bound_edge (py ''CALLS'') rows e0" by (simp add: bound_edge_def)
      with nb show False by simp
    qed
    then have ev: "e = e0\<lparr>e_scip_verified := Some True\<rparr>" by (simp add: e0(2) v_def)
    from b have "(e_src e0, e_dst e0) \<in> set rows" "e_rel e0 = py ''CALLS''"
      by (simp_all add: bound_edge_def)
    then have "e_src e0 \<in> nid ` set (match_nodes cp g)"
      unfolding rows_def rows_of_iff by auto
    with ev b show "e_rel e = py ''CALLS'' \<and> e_scip_verified e = Some True \<and>
           e_src e \<in> nid ` set (match_nodes cp g)"
      by (simp add: bound_edge_def)
  qed
qed

text \<open>
  Claim C4. The caller of an attributed reference is looked up by path and name; when
  no node matches, it is looked up by path and line number of the chosen function. When
  neither lookup finds a node the graph is unchanged; otherwise every caller found has a
  verified \<open>CALLS\<close> relationship to a node of the target symbol, and every relationship
  that the upsert adds is a \<open>CALLS\<close> relationship from such a caller with
  \<open>scip_verified\<close> set.
\<close>

theorem link_call_lookup_order:
  "(let by_name = match_nodes (is_caller path (\<lambda>n. n_name n = Some (f_name caller))) g;
        by_line = match_nodes
                    (is_caller path (\<lambda>n. n_line_number n = Some (f_line_number caller))) g;
        callers = (if by_name \<noteq> [] then by_name else by_line);
        g' = link_call path caller tlab tsym tnm g
    in (callers = [] \<longrightarrow> g' = g) \<and>
       (\<forall>c\<in>set callers. verified_call g' (nid c) tlab tsym) \<and>
       (\<forall>e\<in>set (edges g'). e \<notin> set (edges g) \<longrightarrow>
          e_rel e = py ''CALLS'' \<and> e_scip_verified e = Some True \<and>
          e_src e \<in> nid ` set callers)) \<and>
   (\<not> is_local (o_symbol ref) \<and> resolve_caller functions ref_line = Some caller \<longrightarrow>
      link_reference symbol_map path functions ref ref_line g =
        link_call path caller (target_label (o_symbol ref) (symbol_map (o_symbol ref)))
          (o_symbol ref) (extract_name (o_symbol ref) (symbol_map (o_symbol ref))) g)"
proof (rule conjI)
  define byname where "byname = is_caller path (\<lambda>n. n_name n = Some (f_name caller))"
  define byline where "byline = is_caller path (\<lambda>n. n_line_number n = Some (f_line_number caller))"
  define cp where "cp = (if match_nodes byname g \<noteq> [] then byname else byline)"
  have l: "link_call path caller tlab tsym tnm g = fst (upsert_call cp tlab tsym tnm g)"
    unfolding link_call_cases cp_def byname_def byline_def by simp
  have c: "(if match_nodes byname g \<noteq> [] then match_nodes byname g else match_nodes byline g)
        = match_nodes cp g"
    by (simp add: cp_def)
  have "(match_nodes cp g = [] \<longrightarrow> fst (upsert_call cp tlab tsym tnm g) = g) \<and>
       (\<forall>c\<in>set (match_nodes cp g).
          verified_call (fst (upsert_call cp tlab tsym tnm g)) (nid c) tlab tsym) \<and>
       (\<forall>e\<in>set (edges (fst (upsert_call cp tlab tsym tnm g))). e \<notin> set (edges g) \<longrightarrow>
          e_rel e = py ''CALLS'' \<and> e_scip_verified e = Some True \<and>
          e_src e \<in> nid ` set (match_nodes cp g))"
  proof (cases "match_nodes cp g = []")
    case True
    then show ?thesis by (simp add: upsert_call_none)
  next
    case False
    from upsert_call_effect [OF False, of tlab tsym tnm] False show ?thesis by blast
  qed
  then show "(let by_name = match_nodes (is_caller path (\<lambda>n. n_name n = Some (f_name caller))) g;
        by_line = match_nodes
                    (is_caller path (\<lambda>n. n_line_number n = Some (f_line_number caller))) g;
        callers = (if by_name \<noteq> [] then by_name else by_line);
        g' = link_call path caller tlab tsym tnm g
    in (callers = [] \<longrightarrow> g' = g) \<and>
       (\<forall>c\<in>set callers. verified_call g' (nid c) tlab tsym) \<and>
       (\<forall>e\<in>set (edges g'). e \<notin> set (edges g) \<longrightarrow>
          e_rel e = py ''CALLS'' \<and> e_scip_verified e = Some True \<and>
          e_src e \<in> nid ` set callers))"
    unfolding Let_def byname_def [symmetric] byline_def [symmetric] c l .
next
  show "\<not> is_local (o_symbol ref) \<and> resolve_caller functions ref_line = Some caller \<longrightarrow>
      link_reference symbol_map path functions ref ref_line g =
        link_call path caller (target_label (o_symbol ref) (symbol_map (o_symbol ref)))
          (o_symbol ref) (extract_name (o_symbol ref) (symbol_map (o_symbol ref))) g"
    by (simp add: link_reference_def Let_def)
qed

lemmas graph_eval = match_nodes_def is_caller_def has_label_def

theorem link_call_lookup_order_witness:
  "verified_call (link_call (py ''/r/a.py'') ex_inner (py ''Function'') (py ''pkg/helper().'')
      (py ''helper'') ex_graph) 1 (py ''Function'') (py ''pkg/helper().'') \<and>
   verified_call (link_call (py ''/r/a.py'') ex_renamed (py ''Function'') (py ''pkg/helper().'')
      (py ''helper'') ex_graph) 1 (py ''Function'') (py ''pkg/helper().'') \<and>
   link_call (py ''/r/a.py'') ex_outer (py ''Function'') (py ''pkg/helper().'')
      (py ''helper'') ex_graph = ex_graph \<and>
   link_reference Map.empty (py ''/r/a.py'') [ex_outer, ex_inner] ex_ref 7 ex_graph =
     link_call (py ''/r/a.py'') ex_inner (target_label (o_symbol ex_ref) None)
       (o_symbol ex_ref) (extract_name (o_symbol ex_ref) None) ex_graph"
  using link_call_lookup_order [of "py ''/r/a.py''" ex_inner ex_graph "py ''Function''"
      "py ''pkg/helper().''" "py ''helper''" ex_ref "[ex_outer, ex_inner]" 7 Map.empty]
    link_call_lookup_order [of "py ''/r/a.py''" ex_renamed ex_graph "py ''Function''"
      "py ''pkg/helper().''" "py ''helper''" ex_ref "[ex_outer, ex_inner]" 7 Map.empty]
    link_call_lookup_order [of "py ''/r/a.py''" ex_outer ex_graph "py ''Function''"
      "py ''pkg/helper().''" "py ''helper''" ex_ref "[ex_outer, ex_inner]" 7 Map.empty]
  by (simp add: Let_def graph_eval example_eval ex_renamed_def resolve_caller_def)

lemma local_free_merge_node:
  "local_free g \<Longrightarrow> \<not> is_local_node (mk (fresh_id g)) \<Longrightarrow> local_free (merge_node P mk g)"
  by (simp add: local_free_def merge_node_def)

lemma local_free_set_nodes:
  "local_free g \<Longrightarrow> (\<And>n. n_scip_symbol (f n) = n_scip_symbol n) \<Longrightarrow>
     local_free (set_nodes P f g)"
  by (auto simp: local_free_def set_nodes_def list_all_iff is_local_node_def)

lemma local_free_merge_edges [simp]: "local_free (merge_edges rel rows g) = local_free g"
  by (simp add: local_free_def)

lemma local_free_verify_edges [simp]: "local_free (verify_edges rel rows g) = local_free g"
  by (simp add: local_free_def)

lemma not_local_new_node [simp]: "\<not> is_local_node ((new_node i l)\<lparr>n_path := p\<rparr>)"
  by (simp add: is_local_node_def new_node_def)

lemma not_local_symbol_node:
  "\<not> is_local s \<Longrightarrow> \<not> is_local_node ((new_node i l)\<lparr>n_scip_symbol := Some s\<rparr>)"
  "\<not> is_local s \<Longrightarrow> \<not> is_local_node ((new_node i l)\<lparr>n_scip_symbol := Some s, n_name := x\<rparr>)"
  by (simp_all add: is_local_node_def new_node_def)

lemma local_free_upsert_file:
  "local_free g \<Longrightarrow> local_free (upsert_file path rel name g)"
  unfolding upsert_file_def
  by (intro local_free_set_nodes local_free_merge_node) simp_all

lemma local_free_link_directory:
  "local_free g \<Longrightarrow> local_free (link_directory pl pp cur part g)"
  unfolding link_directory_def Let_def
  by (auto intro!: local_free_set_nodes local_free_merge_node)

lemma local_free_link_file:
  "local_free g \<Longrightarrow> local_free (link_file pl pp fp g)"
  by (simp add: link_file_def)

lemma local_free_link_dirs1:
  "local_free g \<Longrightarrow> local_free (snd (link_dirs1 pl pp parts g))"
  by (induction parts arbitrary: pl pp g) (simp_all add: Let_def local_free_link_directory)

lemma local_free_link_dirs2:
  "local_free g \<Longrightarrow> local_free (snd (link_dirs2 pl pp cur parts g))"
  by (induction parts arbitrary: pl pp cur g) (simp_all add: Let_def local_free_link_directory)

lemma local_free_link_hierarchy1:
  "local_free g \<Longrightarrow> local_free (link_hierarchy1 repo parts fp g)"
  using local_free_link_dirs1 [of g "py ''Repository''" repo "butlast parts"]
  by (auto simp: link_hierarchy1_def local_free_link_file split: prod.splits)

lemma local_free_link_hierarchy2:
  "local_free g \<Longrightarrow> local_free (link_hierarchy2 repo parts fp g)"
  using local_free_link_dirs2 [of g "py ''Repository''" repo repo "butlast parts"]
  by (auto simp: link_hierarchy2_def local_free_link_file split: prod.splits)

lemma local_free_upsert_definition:
  "local_free g \<Longrightarrow> \<not> is_local symbol \<Longrightarrow>
     local_free (upsert_definition path label symbol name line g)"
  unfolding upsert_definition_def Let_def
  by (auto intro!: local_free_set_nodes local_free_merge_node not_local_symbol_node)

lemma local_free_process_definition:
  "local_free g \<Longrightarrow> local_free (process_definition sm path occ g)"
  by (simp add: process_definition_def Let_def local_free_upsert_definition)

lemma local_free_fold_definitions:
  "local_free g \<Longrightarrow> local_free (fold (process_definition sm path) occs g)"
  by (induction occs arbitrary: g) (simp_all add: local_free_process_definition)

lemma local_free_upsert_call:
  assumes "local_free g" "\<not> is_local tsym"
  shows "local_free (fst (upsert_call cp tlab tsym tnm g))"
proof (cases "match_nodes cp g = []")
  case True
  with assms show ?thesis by (simp add: upsert_call_none)
next
  case False
  have "local_free (merge_node (symbol_node tlab tsym)
     (\<lambda>i. (new_node i tlab)\<lparr>n_scip_symbol := Some tsym, n_name := Some tnm\<rparr>) g)"
    using assms by (intro local_free_merge_node not_local_symbol_node)
  then show ?thesis unfolding upsert_call_unfold [OF False] Let_def by simp
qed

lemma local_free_link_call:
  "local_free g \<Longrightarrow> \<not> is_local tsym \<Longrightarrow> local_free (link_call path caller tlab tsym tnm g)"
  unfolding link_call_cases by (simp add: local_free_upsert_call)

lemma local_free_link_reference:
  "local_free g \<Longrightarrow> local_free (link_reference sm path functions ref ref_line g)"
  by (simp add: link_reference_def Let_def local_free_link_call split: option.splits)

lemma local_free_link_references:
  "local_free g \<Longrightarrow> local_free (link_references sm path functions refs g)"
  by (induction refs arbitrary: g) (simp_all add: local_free_link_reference split: list.splits)

lemma local_free_link_document_references:
  "local_free g \<Longrightarrow> local_free (link_document_references sm fe refs g)"
  by (simp add: link_document_references_def local_free_link_references split: option.splits)

lemma local_free_process_document:
  assumes "local_free g"
  shows "local_free (snd (process_document ev sm doc g))"
proof -
  define fe where "fe = file_of ev (d_relative_path doc)"
  define g3 where "g3 = link_hierarchy2 (repo_path_str ev) (fe_parts fe) (fe_resolved fe)
     (link_hierarchy1 (repo_path_str ev) (fe_parts fe) (fe_resolved fe)
       (upsert_file (fe_resolved fe) (d_relative_path doc) (basename (fe_resolved fe)) g))"
  have g3: "local_free g3"
    unfolding g3_def
    by (intro local_free_link_hierarchy2 local_free_link_hierarchy1 local_free_upsert_file assms)
  show ?thesis
    unfolding process_document_def Let_def fe_def [symmetric] g3_def [symmetric]
    using assms g3
    by (simp add: local_free_link_document_references local_free_fold_definitions)
qed

lemma local_free_process_documents:
  "local_free g \<Longrightarrow> local_free (snd (process_documents ev sm docs g))"
proof (induction docs arbitrary: g)
  case Nil
  then show ?case by simp
next
  case (Cons doc docs)
  obtain r g' where p: "process_document ev sm doc g = (r, g')"
    by (cases "process_document ev sm doc g")
  with local_free_process_document [OF Cons.prems, of ev sm doc] have "local_free g'" by simp
  with Cons.IH [of g'] p show ?case by (cases r) simp_all
qed

lemma local_free_cleanup_local: "local_free (cleanup_local g)"
  by (simp add: local_free_def cleanup_local_def Let_def list_all_iff)

lemma local_free_no_touch: "local_free g \<Longrightarrow> \<not> touches_local g e"
  by (auto simp: local_free_def touches_local_def list_all_iff list_ex_iff)

text \<open>
  Claim C2. When the ingestion of an index completes, that is returns without raising,
  no node of the graph carries a local symbol and no relationship has such a node at
  either end, whatever the graph was before. Before the cleanup query, no step adds a
  local symbol: processing a document, and the whole ingestion even when it raises,
  keep a graph free of local symbols free of them, since local definitions and local
  references are skipped before their queries.
\<close>

theorem ingest_index_no_local:
  "(fst (ingest_index ev idx g) = None \<longrightarrow>
      local_free (snd (ingest_index ev idx g)) \<and>
      (\<forall>e\<in>set (edges (snd (ingest_index ev idx g))).
         \<not> touches_local (snd (ingest_index ev idx g)) e)) \<and>
   (local_free g \<longrightarrow> local_free (snd (process_document ev symbol_map doc g))) \<and>
   (local_free g \<longrightarrow> local_free (snd (ingest_index ev idx g)))"
proof (intro conjI impI)
  assume ok: "fst (ingest_index ev idx g) = None"
  obtain r g' where p: "process_documents ev (build_symbol_map idx) (i_documents idx) g = (r, g')"
    by (cases "process_documents ev (build_symbol_map idx) (i_documents idx) g")
  with ok have "snd (ingest_index ev idx g) = cleanup_local g'"
    by (cases r) (simp_all add: ingest_index_def)
  then show lf: "local_free (snd (ingest_index ev idx g))"
    by (simp add: local_free_cleanup_local)
  then show "\<forall>e\<in>set (edges (snd (ingest_index ev idx g))).
         \<not> touches_local (snd (ingest_index ev idx g)) e"
    by (simp add: local_free_no_touch)
next
  assume "local_free g"
  then show "local_free (snd (process_document ev symbol_map doc g))"
    by (rule local_free_process_document)
next
  assume lf: "local_free g"
  obtain r g' where p: "process_documents ev (build_symbol_map idx) (i_documents idx) g = (r, g')"
    by (cases "process_documents ev (build_symbol_map idx) (i_documents idx) g")
  with local_free_process_documents [OF lf, of ev "build_symbol_map idx" "i_documents idx"]
  have "local_free g'" by simp
  with p show "local_free (snd (ingest_index ev idx g))"
    by (cases r) (simp_all add: ingest_index_def local_free_cleanup_local)
qed

theorem ingest_index_no_local_witness:
  "\<not> local_free ex_local_graph \<and>
   fst (ingest_index ex_env ex_index ex_local_graph) = None \<and>
   local_free (snd (ingest_index ex_env ex_index ex_local_graph)) \<and>
   local_free ex_graph \<and>
   local_free (snd (process_document ex_env Map.empty ex_doc ex_graph)) \<and>
   local_free (snd (ingest_index ex_env ex_index ex_graph))"
  using ingest_index_no_local [of ex_env ex_index ex_local_graph Map.empty ex_doc]
    ingest_index_no_local [of ex_env ex_index ex_graph Map.empty ex_doc]
  by (simp add: ingest_index_def process_document_def Let_def example_eval ex_doc_def
      ex_index_def ex_local_graph_def local_free_def is_local_node_def is_definition_def
      SymbolRole_Definition_def split: prod.splits)

lemma ignore_total: "\<exists>s. utf8_decode_from k Ignore bs = Inr s"
proof (induction bs arbitrary: k)
  case Nil
  then show ?case by simp
next
  case (Cons b bs)
  show ?case
  proof (cases "0 < k")
    case True
    with Cons [of "k - 1"] show ?thesis by simp
  next
    case False
    show ?thesis
    proof (cases "decode_step (b # bs)")
      case (Inl a)
      obtain cp n where a: "a = (cp, n)" by (cases a)
      from Cons [of "n - 1"] obtain s where "utf8_decode_from (n - 1) Ignore bs = Inr s" by blast
      with Inl a False show ?thesis by simp
    next
      case (Inr j)
      from Cons [of "j - 1"] obtain s where "utf8_decode_from (j - 1) Ignore bs = Inr s" by blast
      with Inr False show ?thesis by simp
    qed
  qed
qed

lemma read_source_some:
  "read_bytes te path = Some bs \<Longrightarrow>
     \<exists>s. utf8_decode Ignore bs = Inr s \<and> read_source te path = Inr (universal_newlines s)"
  using ignore_total [of 0 bs] by (auto simp: read_source_def utf8_decode_def)

lemma read_source_none: "read_bytes te path = None \<Longrightarrow> read_source te path = Inl OSError"
  by (simp add: read_source_def)

lemmas key_eval = py_def entries_of_def entry_tagged_def

text \<open>
  Claim C9. For every HEEx template that can be read, \<open>parse\<close> returns a structural
  record; in every record it returns, \<open>classes\<close> and \<open>function_calls\<close> are the empty
  list, \<open>functions\<close> holds the components and \<open>variables\<close> holds the directives of
  the tree.
\<close>

theorem heex_parse_no_classes_no_calls:
  "(\<forall>bs. read_bytes te path = Some bs \<longrightarrow>
      (\<exists>r. heex_parse te path is_dependency index_source = Inr r)) \<and>
   (\<forall>r. heex_parse te path is_dependency index_source = Inr r \<longrightarrow>
      map_of r (py ''classes'') = Some (PList []) \<and>
      map_of r (py ''function_calls'') = Some (PList []) \<and>
      (\<exists>root. map_of r (py ''functions'') = Some (PList (heex_find_components te index_source root)) \<and>
              map_of r (py ''variables'') = Some (PList (heex_find_directives te root))))"
proof (intro conjI allI impI)
  fix bs assume "read_bytes te path = Some bs"
  from read_source_some [OF this] obtain s where "read_source te path = Inr (universal_newlines s)"
    by blast
  then show "\<exists>r. heex_parse te path is_dependency index_source = Inr r"
    by (simp add: heex_parse_def Let_def)
next
  fix r assume r: "heex_parse te path is_dependency index_source = Inr r"
  then obtain src where src: "read_source te path = Inr src"
    by (cases "read_source te path") (simp_all add: heex_parse_def)
  define root where "root = ts_parse te (utf8_encode src)"
  from r src have r': "r = [(py ''path'', PStr path),
                   (py ''functions'', PList (heex_find_components te index_source root)),
                   (py ''classes'', PList []),
                   (py ''variables'', PList (heex_find_directives te root)),
                   (py ''imports'', PList (heex_find_imports te root)),
                   (py ''function_calls'', PList []),
                   (py ''is_dependency'', PBool is_dependency),
                   (py ''lang'', PStr (py ''heex''))]"
    by (simp add: heex_parse_def Let_def root_def)
  show "map_of r (py ''classes'') = Some (PList [])" by (simp add: r' py_def)
  show "map_of r (py ''function_calls'') = Some (PList [])" by (simp add: r' py_def)
  have "map_of r (py ''functions'') = Some (PList (heex_find_components te index_source root)) \<and>
        map_of r (py ''variables'') = Some (PList (heex_find_directives te root))"
    by (simp add: r' py_def)
  then show "\<exists>root. map_of r (py ''functions'') = Some (PList (heex_find_components te index_source root)) \<and>
              map_of r (py ''variables'') = Some (PList (heex_find_directives te root))"
    by blast
qed

end
